theory Spec2Isabelle
  imports Complex_Main
begin

unbundle bit_operations_syntax

section \<open>nerf-edge-kit: hash encoder, direction encoder, sampler and volume integrator\<close>

text \<open>
  A shallow embedding of the rendering core of the Python package \<open>nerf_edge_kit\<close>
  (\<open>core/config.py\<close>, \<open>models/nerf.py\<close>, \<open>models/instant_ngp.py\<close>).

  Conventions of the embedding:
  \<^item> Tensors of floats are lists of \<open>real\<close>; unless said otherwise the arithmetic is that of
    the real numbers, so a statement is about the formulas the code evaluates, not about
    the rounding of float32 or float64. Two places go further, because there the float
    behaviour decides a property: \<open>F_normalize\<close> writes out the overflow of the sum of
    squares beyond the largest float32, and the transmittance of the integrator has a
    second definition in which every operation is followed by the rounding of the dtype.
  \<^item> Every function is written for one ray (one row of the batch): the tensor code is
    vectorised over the leading batch dimension and no row reads another row.
  \<^item> Tensors of dtype int64 are \<open>int\<close> with the wrap-around of the 64-bit product written out.
  \<^item> A Python exception is a value \<open>Inl e\<close> of a sum type.
  \<^item> Random draws (\<open>torch.rand\<close>, \<open>torch.randn\<close>) are explicit parameters.
\<close>

datatype error = ValueError string | IndexError | RuntimeError

subsection \<open>Helpers for tensors as lists\<close>

text \<open>Collecting results, stopping at the first exception.\<close>

fun sequence_sum :: "(error + 'a) list \<Rightarrow> error + 'a list" where
  "sequence_sum [] = Inr []"
| "sequence_sum (Inl e # rs) = Inl e"
| "sequence_sum (Inr x # rs) = (case sequence_sum rs of Inl e \<Rightarrow> Inl e | Inr xs \<Rightarrow> Inr (x # xs))"

text \<open>\<open>torch.clamp(x, min, max)\<close> is \<open>min(max(x, min), max)\<close>; when \<open>min > max\<close> it yields \<open>max\<close>.\<close>

definition clamp :: "int \<Rightarrow> int \<Rightarrow> int \<Rightarrow> int" where
  "clamp x lo hi = min (max x lo) hi"

text \<open>The value an int64 tensor holds after an arithmetic result \<open>x\<close> (two's complement).\<close>

definition wrap_int64 :: "int \<Rightarrow> int" where
  "wrap_int64 x = (x + 2 ^ 63) mod 2 ^ 64 - 2 ^ 63"

text \<open>
  \<open>table[idx]\<close> with an integer index tensor: an index in \<open>[-n, n)\<close> selects a row (negative
  indices count from the end), any other index raises.
\<close>

definition index_rows :: "'a list \<Rightarrow> int \<Rightarrow> error + 'a" where
  "index_rows table i =
     (if 0 \<le> i \<and> i < int (length table) then Inr (table ! nat i)
      else if - int (length table) \<le> i \<and> i < 0 then Inr (table ! nat (int (length table) + i))
      else Inl IndexError)"

subsection \<open>core/config.py\<close>

text \<open>
  \<open>ModelConfig\<close>, with the fields that \<open>__post_init__\<close> validates and the hash-grid fields
  (the remaining fields are read by none of the functions modelled here).
\<close>

record ModelConfig =
  network_width :: int
  network_depth :: int
  hashmap_size :: int
  max_resolution :: int
  base_resolution :: int
  log2_hashmap_size :: nat
  max_samples :: int
  near_plane :: real
  far_plane :: real

definition default_ModelConfig :: ModelConfig where
  "default_ModelConfig =
     \<lparr> network_width = 64, network_depth = 2, hashmap_size = 2 ^ 19, max_resolution = 2048,
       base_resolution = 16, log2_hashmap_size = 19, max_samples = 1024,
       near_plane = 0.2, far_plane = 1000 \<rparr>"

text \<open>\<open>ModelConfig.__post_init__\<close>: the dataclass constructor returns the object or raises.\<close>

definition post_init :: "ModelConfig \<Rightarrow> error + ModelConfig" where
  "post_init self =
     (if network_width self \<le> 0 then Inl (ValueError ''network_width must be positive'')
      else if network_depth self \<le> 0 then Inl (ValueError ''network_depth must be positive'')
      else if max_samples self \<le> 0 then Inl (ValueError ''max_samples must be positive'')
      else if near_plane self \<ge> far_plane self
        then Inl (ValueError ''near_plane must be less than far_plane'')
      else Inr self)"

text \<open>\<open>SceneConfig\<close>: the two background-handling fields.\<close>

record SceneConfig =
  background_color :: "real \<times> real \<times> real"
  use_white_background :: bool

subsection \<open>models/instant_ngp.py: HashEncoding\<close>

text \<open>
  The attributes of \<open>HashEncoding\<close>; \<open>hashmap_size_enc\<close> is the attribute \<open>hashmap_size\<close> of the
  encoder (\<open>2 ** log2_hashmap_size\<close>), renamed apart from the configuration field.
\<close>

record HashEncoding =
  num_levels :: int
  feature_dim :: nat
  hashmap_size_enc :: int
  growth_factor :: real
  hash_table :: "real list list"
  resolutions :: "int list"

text \<open>Python's \<open>int(x)\<close> on a float truncates towards zero.\<close>

definition py_int :: "real \<Rightarrow> int" where
  "py_int x = (if 0 \<le> x then \<lfloor>x\<rfloor> else \<lceil>x\<rceil>)"

text \<open>
  \<open>HashEncoding.__init__\<close>. \<open>randn i j\<close> is the sample \<open>torch.randn\<close> draws for row \<open>i\<close>,
  column \<open>j\<close> of the table. The float64 results of numpy are parameters, because the exact
  real value and the float64 value can truncate to different integers: \<open>growth\<close> is the value
  of \<open>np.exp((np.log(max_resolution) - np.log(base_resolution)) / (num_levels - 1))\<close>, and
  \<open>scaled level\<close> is the value of \<open>base_resolution * (self.growth_factor ** level)\<close>, which
  the loop body evaluates once per level (so \<open>base_res\<close> enters through \<open>scaled\<close> only). Both
  are finite numbers here; numpy turns a non-positive resolution into \<open>nan\<close> or \<open>inf\<close>, on
  which \<open>int\<close> raises. The resolutions are stored in an int32 tensor, whose construction
  raises on a value outside int32.
\<close>

definition HashEncoding_init ::
  "int \<Rightarrow> int \<Rightarrow> int \<Rightarrow> nat \<Rightarrow> nat \<Rightarrow> real \<Rightarrow> (nat \<Rightarrow> real) \<Rightarrow> (nat \<Rightarrow> nat \<Rightarrow> real)
     \<Rightarrow> error + HashEncoding" where
  "HashEncoding_init n_levels base_res max_res log2_size feat_dim growth scaled randn =
     (let size = 2 ^ log2_size;
          table = map (\<lambda>i. map (\<lambda>j. randn i j * 0.0001) [0..<feat_dim]) [0..<size];
          res = map (\<lambda>level. min (py_int (scaled level)) max_res) [0..<nat n_levels]
      in if list_ex (\<lambda>r. r < - (2 ^ 31) \<or> 2 ^ 31 \<le> r) res then Inl RuntimeError
         else Inr \<lparr> num_levels = n_levels, feature_dim = feat_dim, hashmap_size_enc = int size,
                    growth_factor = growth, hash_table = table, resolutions = res \<rparr>)"

definition primes :: "int list" where
  "primes = [1, 2654435761, 805459861]"

text \<open>
  \<open>HashEncoding._hash_position\<close> for one corner \<open>(x, y, z)\<close>: clamp, multiply by the primes in
  int64, xor, and take the remainder (\<open>%\<close> on tensors has the sign of the divisor, as
  \<open>mod\<close> on \<open>int\<close> has).
\<close>

definition hash_position :: "HashEncoding \<Rightarrow> int \<times> int \<times> int \<Rightarrow> int \<Rightarrow> int" where
  "hash_position self positions resolution =
     (case positions of (x, y, z) \<Rightarrow>
        let px = clamp x 0 (resolution - 1);
            py = clamp y 0 (resolution - 1);
            pz = clamp z 0 (resolution - 1);
            hash_val0 = wrap_int64 (px * primes ! 0);
            hash_val1 = hash_val0 XOR wrap_int64 (py * primes ! 1);
            hash_val2 = hash_val1 XOR wrap_int64 (pz * primes ! 2)
        in hash_val2 mod hashmap_size_enc self)"

text \<open>The table lookup \<open>self.hash_table[hash_idx]\<close> of \<open>forward\<close>.\<close>

definition lookup_corner :: "HashEncoding \<Rightarrow> int \<times> int \<times> int \<Rightarrow> int \<Rightarrow> error + real list" where
  "lookup_corner self corner resolution =
     index_rows (hash_table self) (hash_position self corner resolution)"

text \<open>A feature row times a per-point scalar weight, and the sum of two rows.\<close>

definition scale_row :: "real list \<Rightarrow> real \<Rightarrow> real list" where
  "scale_row c w = map (\<lambda>v. v * w) c"

definition add_rows :: "real list \<Rightarrow> real list \<Rightarrow> real list" where
  "add_rows a b = map2 (+) a b"

text \<open>\<open>HashEncoding._trilinear_interpolate\<close>; \<open>corner_features[7]\<close> raises on a shorter list.\<close>

definition trilinear_interpolate ::
  "real list list \<Rightarrow> real \<times> real \<times> real \<Rightarrow> error + real list" where
  "trilinear_interpolate corner_features weights =
     (case weights of (wx, wy, wz) \<Rightarrow>
        if length corner_features < 8 then Inl IndexError
        else
          let c000 = corner_features ! 0; c001 = corner_features ! 1;
              c010 = corner_features ! 2; c011 = corner_features ! 3;
              c100 = corner_features ! 4; c101 = corner_features ! 5;
              c110 = corner_features ! 6; c111 = corner_features ! 7;
              c00 = add_rows (scale_row c000 (1 - wx)) (scale_row c100 wx);
              c01 = add_rows (scale_row c001 (1 - wx)) (scale_row c101 wx);
              c10 = add_rows (scale_row c010 (1 - wx)) (scale_row c110 wx);
              c11 = add_rows (scale_row c011 (1 - wx)) (scale_row c111 wx);
              c0 = add_rows (scale_row c00 (1 - wy)) (scale_row c10 wy);
              c1 = add_rows (scale_row c01 (1 - wy)) (scale_row c11 wy)
          in Inr (add_rows (scale_row c0 (1 - wz)) (scale_row c1 wz)))"

text \<open>The eight corners in the order of the three nested \<open>range(2)\<close> loops.\<close>

definition corners_of :: "int \<times> int \<times> int \<Rightarrow> (int \<times> int \<times> int) list" where
  "corners_of grid_pos =
     (case grid_pos of (gx, gy, gz) \<Rightarrow>
        concat (map (\<lambda>i. concat (map (\<lambda>j. map (\<lambda>k. (gx + i, gy + j, gz + k)) [0, 1]) [0, 1])) [0, 1]))"

text \<open>
  The body of the level loop of \<open>HashEncoding.forward\<close>, for a position already mapped to
  \<open>[0, 1]\<close>.
\<close>

definition forward_level :: "HashEncoding \<Rightarrow> int \<Rightarrow> real \<times> real \<times> real \<Rightarrow> error + real list" where
  "forward_level self resolution positions =
     (case positions of (p0, p1, p2) \<Rightarrow>
        let s0 = p0 * real_of_int (resolution - 1);
            s1 = p1 * real_of_int (resolution - 1);
            s2 = p2 * real_of_int (resolution - 1);
            grid_pos = (\<lfloor>s0\<rfloor>, \<lfloor>s1\<rfloor>, \<lfloor>s2\<rfloor>);
            weights = (s0 - real_of_int \<lfloor>s0\<rfloor>, s1 - real_of_int \<lfloor>s1\<rfloor>, s2 - real_of_int \<lfloor>s2\<rfloor>);
            corners = corners_of grid_pos
        in case sequence_sum (map (\<lambda>corner. lookup_corner self corner resolution) corners) of
             Inl e \<Rightarrow> Inl e
           | Inr corner_features \<Rightarrow> trilinear_interpolate corner_features weights)"

text \<open>
  \<open>HashEncoding.forward\<close> up to the final concatenation: the list \<open>encoded_features\<close>, one
  interpolated row per level.
\<close>

definition encoded_features :: "HashEncoding \<Rightarrow> real \<times> real \<times> real \<Rightarrow> error + real list list" where
  "encoded_features self positions =
     (case positions of (p0, p1, p2) \<Rightarrow>
        let positions01 = ((p0 + 1) * 0.5, (p1 + 1) * 0.5, (p2 + 1) * 0.5)
        in sequence_sum
             (map (\<lambda>level. case index_rows (resolutions self) (int level) of
                              Inl e \<Rightarrow> Inl e
                            | Inr resolution \<Rightarrow> forward_level self resolution positions01)
                  [0..<nat (num_levels self)]))"

text \<open>\<open>HashEncoding.forward\<close>; \<open>torch.cat\<close> of an empty list raises.\<close>

definition forward :: "HashEncoding \<Rightarrow> real \<times> real \<times> real \<Rightarrow> error + real list" where
  "forward self positions =
     (case encoded_features self positions of
        Inl e \<Rightarrow> Inl e
      | Inr fs \<Rightarrow> if fs = [] then Inl RuntimeError else Inr (concat fs))"

text \<open>
  The shape invariant \<open>__init__\<close> establishes and training keeps: the table has
  \<open>hashmap_size\<close> rows of \<open>feature_dim\<close> entries, \<open>hashmap_size\<close> (a power of two by its
  construction) is positive, and there is one resolution per level, each a positive int32.
\<close>

definition encoder_ok :: "HashEncoding \<Rightarrow> bool" where
  "encoder_ok self =
     (0 < hashmap_size_enc self
      \<and> int (length (hash_table self)) = hashmap_size_enc self
      \<and> list_all (\<lambda>row. length row = feature_dim self) (hash_table self)
      \<and> int (length (resolutions self)) = max 0 (num_levels self)
      \<and> list_all (\<lambda>r. 1 \<le> r \<and> r < 2 ^ 31) (resolutions self))"

text \<open>A small encoder with one level of resolution 3 over a table of four rows.\<close>

definition demo_encoding :: HashEncoding where
  "demo_encoding =
     \<lparr> num_levels = 1, feature_dim = 2, hashmap_size_enc = 4, growth_factor = 1,
       hash_table = [[1, 2], [3, 4], [5, 6], [7, 8]], resolutions = [3] \<rparr>"

subsection \<open>models/instant_ngp.py: SphericalHarmonicsEncoding\<close>

record SphericalHarmonicsEncoding =
  degree :: int
  output_dim :: nat

definition SphericalHarmonicsEncoding_init :: "int \<Rightarrow> SphericalHarmonicsEncoding" where
  "SphericalHarmonicsEncoding_init deg = \<lparr> degree = deg, output_dim = nat ((deg + 1) ^ 2) \<rparr>"

text \<open>The largest finite value of float32, the default dtype of the tensors.\<close>

definition float32_max :: real where
  "float32_max = (2 - 1 / 2 ^ 23) * 2 ^ 127"

text \<open>
  \<open>F.normalize(directions, dim=-1)\<close>: division by \<open>max(norm, eps)\<close> with the default
  \<open>eps = 1e-12\<close>. The norm is the square root of the sum of squares; when that sum exceeds
  the largest float32 it overflows to \<open>inf\<close>, the norm is \<open>inf\<close>, and every (finite) component
  divided by it is 0.
\<close>

definition norm3 :: "real \<times> real \<times> real \<Rightarrow> real" where
  "norm3 v = (case v of (x, y, z) \<Rightarrow> sqrt (x ^ 2 + y ^ 2 + z ^ 2))"

definition F_normalize :: "real \<times> real \<times> real \<Rightarrow> real \<times> real \<times> real" where
  "F_normalize v =
     (case v of (x, y, z) \<Rightarrow>
        if float32_max < x ^ 2 + y ^ 2 + z ^ 2 then (0, 0, 0)
        else let n = max (norm3 v) (1 / 10 ^ 12) in (x / n, y / n, z / n))"

text \<open>
  \<open>SphericalHarmonicsEncoding.forward\<close> for one direction. The list \<open>features\<close> grows by the
  blocks of degree 0 to 4; \<open>features[:self.output_dim]\<close> is \<open>take\<close>; \<open>torch.stack\<close> of an empty
  list raises.
\<close>

definition sh_forward :: "SphericalHarmonicsEncoding \<Rightarrow> real \<times> real \<times> real \<Rightarrow> error + real list" where
  "sh_forward self directions =
     (case F_normalize directions of (x, y, z) \<Rightarrow>
        let features = [1 * 0.28209479177387814];
            features = features @ (if degree self \<ge> 1 then
              [- 0.48860251190291987 * y,
               0.48860251190291987 * z,
               - 0.48860251190291987 * x] else []);
            features = features @ (if degree self \<ge> 2 then
              [1.0925484305920792 * x * y,
               - 1.0925484305920792 * y * z,
               0.31539156525252005 * (3 * z ^ 2 - 1),
               - 1.0925484305920792 * x * z,
               0.5462742152960396 * (x ^ 2 - y ^ 2)] else []);
            features = features @ (if degree self \<ge> 3 then
              [- 0.5900435899266435 * y * (3 * x ^ 2 - y ^ 2),
               2.890611442640554 * x * y * z,
               - 0.4570457994644658 * y * (5 * z ^ 2 - 1),
               0.3731763325901154 * z * (5 * z ^ 2 - 3),
               - 0.4570457994644658 * x * (5 * z ^ 2 - 1),
               1.445305721320277 * z * (x ^ 2 - y ^ 2),
               - 0.5900435899266435 * x * (x ^ 2 - 3 * y ^ 2)] else []);
            features = features @ (if degree self \<ge> 4 then
              [2.5033429417967046 * x * y * (x ^ 2 - y ^ 2),
               - 1.7701307697799304 * y * z * (3 * x ^ 2 - y ^ 2),
               0.9461746957575601 * x * y * (7 * z ^ 2 - 1),
               - 0.6690465435572892 * y * z * (7 * z ^ 2 - 3),
               0.10578554691520431 * (35 * z ^ 4 - 30 * z ^ 2 + 3),
               - 0.6690465435572892 * x * z * (7 * z ^ 2 - 3),
               0.47308734787878004 * (x ^ 2 - y ^ 2) * (7 * z ^ 2 - 1),
               - 1.7701307697799304 * x * z * (x ^ 2 - 3 * y ^ 2),
               0.6258357354491761 * (x ^ 4 - 6 * x ^ 2 * y ^ 2 + y ^ 4)] else []);
            stacked = take (output_dim self) features
        in if stacked = [] then Inl RuntimeError else Inr stacked)"

subsection \<open>models/nerf.py: the volume integrator\<close>

text \<open>
  The intermediate tensors of \<open>NerfModel.volume_render\<close> (and, line for line, of
  \<open>_compute_sample_weights\<close>) for one ray. \<open>t_vals[..., 1:] - t_vals[..., :-1]\<close> is followed
  by \<open>torch.full_like(dists[..., :1], 1e10)\<close>, a slice that is empty when \<open>dists\<close> is: a ray of
  fewer than two samples has no interval at all. The elementwise products pair the entries
  of two rows of equal length; a row of length one against an empty row broadcasts to the
  empty row, which is what \<open>zip\<close> gives.
\<close>

definition compute_dists :: "real list \<Rightarrow> real list" where
  "compute_dists t_vals =
     (let dists = map2 (-) (drop 1 t_vals) (butlast t_vals)
      in dists @ map (\<lambda>_. 10 ^ 10) (take 1 dists))"

definition compute_alpha :: "real list \<Rightarrow> real list \<Rightarrow> real list" where
  "compute_alpha densities t_vals =
     map2 (\<lambda>density dist. 1 - exp (- density * dist)) densities (compute_dists t_vals)"

text \<open>\<open>torch.cumprod\<close> and \<open>torch.cumsum\<close> along the sample dimension.\<close>

fun cumprod_from :: "real \<Rightarrow> real list \<Rightarrow> real list" where
  "cumprod_from acc [] = []"
| "cumprod_from acc (x # xs) = (acc * x) # cumprod_from (acc * x) xs"

definition cumprod :: "real list \<Rightarrow> real list" where
  "cumprod xs = cumprod_from 1 xs"

fun cumsum_from :: "real \<Rightarrow> real list \<Rightarrow> real list" where
  "cumsum_from acc [] = []"
| "cumsum_from acc (x # xs) = (acc + x) # cumsum_from (acc + x) xs"

definition cumsum :: "real list \<Rightarrow> real list" where
  "cumsum xs = cumsum_from 0 xs"

definition compute_transmittance :: "real list \<Rightarrow> real list" where
  "compute_transmittance alpha =
     butlast (cumprod (map (\<lambda>_. 1) (take 1 alpha) @ map (\<lambda>a. 1 - a + 1 / 10 ^ 10) alpha))"

text \<open>\<open>torch.sum(weights.unsqueeze(-1) * colors, dim=-2)\<close>.\<close>

definition accumulate_colors :: "real list \<Rightarrow> (real \<times> real \<times> real) list \<Rightarrow> real list" where
  "accumulate_colors weights colors =
     [sum_list (map2 (\<lambda>w c. case c of (r, g, b) \<Rightarrow> w * r) weights colors),
      sum_list (map2 (\<lambda>w c. case c of (r, g, b) \<Rightarrow> w * g) weights colors),
      sum_list (map2 (\<lambda>w c. case c of (r, g, b) \<Rightarrow> w * b) weights colors)]"

text \<open>\<open>NerfModel.volume_render\<close>: the row \<open>[r, g, b, acc_alpha]\<close> of one ray.\<close>

definition volume_render ::
  "SceneConfig \<Rightarrow> (real \<times> real \<times> real) list \<Rightarrow> real list \<Rightarrow> real list \<Rightarrow> real list" where
  "volume_render scene_config colors densities t_vals =
     (let alpha = compute_alpha densities t_vals;
          transmittance = compute_transmittance alpha;
          weights = map2 (*) alpha transmittance;
          rgb = accumulate_colors weights colors;
          acc_alpha = sum_list weights;
          rgb = (if use_white_background scene_config
                 then map (\<lambda>c. c + (1 - acc_alpha)) rgb else rgb)
      in rgb @ [acc_alpha])"

text \<open>\<open>NerfModel._compute_sample_weights\<close>.\<close>

definition compute_sample_weights :: "real list \<Rightarrow> real list \<Rightarrow> real list" where
  "compute_sample_weights densities t_vals =
     (let alpha = compute_alpha densities t_vals;
          transmittance = compute_transmittance alpha
      in map2 (*) alpha transmittance)"

text \<open>
  The same intermediate tensors with the rounding of the tensor dtype made explicit.
  \<open>rnd\<close> maps a real number to the value of the dtype that the operation returns for it and
  follows every arithmetic operation of \<open>volume_render\<close>: the subtraction of the distances,
  the product \<open>-densities * dists\<close>, \<open>exp\<close>, \<open>1.0 - ...\<close>, and \<open>1.0 - alpha + 1e-10\<close> (two
  operations, the scalar \<open>1e-10\<close> itself converted to the dtype). \<open>torch.cumprod\<close> multiplies
  along the row in an accumulator and stores each accumulator value in the dtype: \<open>acc\<close> is
  the rounding of the accumulator (on the CPU a float32 row is accumulated in double
  precision), \<open>rnd\<close> that of the stored value. All values stay in the finite range of the
  dtype. With \<open>rnd\<close> and \<open>acc\<close> the identity these are the definitions above.
\<close>

definition compute_dists_rnd :: "(real \<Rightarrow> real) \<Rightarrow> real list \<Rightarrow> real list" where
  "compute_dists_rnd rnd t_vals =
     (let dists = map2 (\<lambda>a b. rnd (a - b)) (drop 1 t_vals) (butlast t_vals)
      in dists @ map (\<lambda>_. rnd (10 ^ 10)) (take 1 dists))"

definition compute_alpha_rnd :: "(real \<Rightarrow> real) \<Rightarrow> real list \<Rightarrow> real list \<Rightarrow> real list" where
  "compute_alpha_rnd rnd densities t_vals =
     map2 (\<lambda>density dist. rnd (1 - rnd (exp (rnd (- density * dist)))))
       densities (compute_dists_rnd rnd t_vals)"

fun cumprod_acc :: "(real \<Rightarrow> real) \<Rightarrow> real \<Rightarrow> real list \<Rightarrow> real list" where
  "cumprod_acc acc c [] = []"
| "cumprod_acc acc c (x # xs) = acc (c * x) # cumprod_acc acc (acc (c * x)) xs"

definition cumprod_rnd :: "(real \<Rightarrow> real) \<Rightarrow> (real \<Rightarrow> real) \<Rightarrow> real list \<Rightarrow> real list" where
  "cumprod_rnd rnd acc xs = map rnd (cumprod_acc acc 1 xs)"

definition compute_transmittance_rnd ::
  "(real \<Rightarrow> real) \<Rightarrow> (real \<Rightarrow> real) \<Rightarrow> real list \<Rightarrow> real list" where
  "compute_transmittance_rnd rnd acc alpha =
     butlast (cumprod_rnd rnd acc
       (map (\<lambda>_. 1) (take 1 alpha) @ map (\<lambda>a. rnd (rnd (1 - a) + rnd (1 / 10 ^ 10))) alpha))"

text \<open>
  What the proofs use of a rounding function: it is monotone, it leaves the values it
  returns unchanged, and 0 and 1 are values of the dtype. Rounding to nearest in float32
  and in float64 both are roundings in this sense.
\<close>

definition rounding :: "(real \<Rightarrow> real) \<Rightarrow> bool" where
  "rounding rnd =
     ((\<forall>x y. x \<le> y \<longrightarrow> rnd x \<le> rnd y) \<and> (\<forall>x. rnd (rnd x) = rnd x) \<and> rnd 0 = 0 \<and> rnd 1 = 1)"

text \<open>
  A dtype absorbs the epsilon of the integrator when \<open>1 + 1e-10\<close> is rounded to 1. float32
  does (the next float32 above 1 is \<open>1 + 2 ^ -23\<close>); float64 and the real numbers do not.
\<close>

definition absorbs_epsilon :: "(real \<Rightarrow> real) \<Rightarrow> bool" where
  "absorbs_epsilon rnd = (rnd (1 + rnd (1 / 10 ^ 10)) \<le> 1)"

text \<open>A rounding that absorbs the epsilon: rounding down to a multiple of \<open>2 ^ -24\<close>.\<close>

definition grid24 :: "real \<Rightarrow> real" where
  "grid24 x = real_of_int \<lfloor>x * 2 ^ 24\<rfloor> / 2 ^ 24"

subsection \<open>models/instant_ngp.py: the renderer with early termination\<close>

text \<open>
  The \<open>for i in range(alpha.shape[-1])\<close> loop of \<open>InstantNGP.volume_render_optimized\<close>, for
  one ray. The body ends in an unconditional \<open>break\<close>: after the first index the remaining
  indices are not visited, so the function does not call itself.
\<close>

fun early_termination_loop :: "nat list \<Rightarrow> real list \<Rightarrow> real \<Rightarrow> real list \<Rightarrow> real list" where
  "early_termination_loop [] alpha accumulated_alpha transmittance = transmittance"
| "early_termination_loop (i # remaining) alpha accumulated_alpha transmittance =
     (let transmittance1 =
            (if i > 0
             then transmittance[i := transmittance ! (i - 1) * (1 - alpha ! (i - 1))]
             else transmittance);
          early_term_mask = (accumulated_alpha > 0.99);
          transmittance2 =
            (if early_term_mask
             then take i transmittance1 @ map (\<lambda>_. 0) (drop i transmittance1)
             else transmittance1)
      in transmittance2)"

text \<open>
  \<open>InstantNGP.volume_render_optimized\<close>; \<open>alpha[..., 0]\<close> raises when the ray has no interval.
\<close>

definition volume_render_optimized ::
  "SceneConfig \<Rightarrow> (real \<times> real \<times> real) list \<Rightarrow> real list \<Rightarrow> real list \<Rightarrow> error + real list" where
  "volume_render_optimized scene_config colors densities t_vals =
     (let alpha = compute_alpha densities t_vals
      in if alpha = [] then Inl IndexError
         else
           let transmittance = map (\<lambda>_. 1) alpha;
               accumulated_alpha = 0;
               transmittance =
                 early_termination_loop [0..<length alpha] alpha accumulated_alpha transmittance;
               weights = map2 (*) alpha transmittance;
               rgb = accumulate_colors weights colors;
               acc_alpha = sum_list weights;
               rgb = (if use_white_background scene_config
                      then map (\<lambda>c. c + (1 - acc_alpha)) rgb else rgb)
           in Inr (rgb @ [acc_alpha]))"

subsection \<open>models/nerf.py: the sampler\<close>

text \<open>\<open>torch.linspace(start, end, steps)\<close>.\<close>

definition linspace :: "real \<Rightarrow> real \<Rightarrow> nat \<Rightarrow> real list" where
  "linspace start stop steps =
     (if steps = 1 then [start]
      else map (\<lambda>i. start + real i * ((stop - start) / real (steps - 1))) [0..<steps])"

text \<open>
  The sample distances of \<open>NerfModel.forward\<close> for one ray; \<open>rand\<close> is the row that
  \<open>torch.rand_like(t_vals)\<close> draws, \<open>num_samples\<close> numbers in \<open>[0, 1)\<close>.
\<close>

definition sample_t_vals :: "bool \<Rightarrow> real \<Rightarrow> real \<Rightarrow> nat \<Rightarrow> real list \<Rightarrow> real list" where
  "sample_t_vals training near far num_samples rand =
     (let t_vals = linspace near far num_samples
      in if training
         then let noise = map (\<lambda>r. r * (far - near) / real num_samples) rand
              in map2 (+) t_vals noise
         else t_vals)"

text \<open>
  \<open>torch.searchsorted(cdf, u, right=True)\<close> on a sorted row: the number of entries that are
  \<open>\<le> u\<close>.
\<close>

definition searchsorted_right :: "real list \<Rightarrow> real \<Rightarrow> int" where
  "searchsorted_right cdf u = int (length (takeWhile (\<lambda>c. c \<le> u) cdf))"

text \<open>\<open>torch.gather(input, -1, index)\<close>: an index outside \<open>[0, size)\<close> raises.\<close>

definition gather :: "'a list \<Rightarrow> int list \<Rightarrow> error + 'a list" where
  "gather input index =
     (if list_all (\<lambda>i. 0 \<le> i \<and> i < int (length input)) index
      then Inr (map (\<lambda>i. input ! nat i) index) else Inl RuntimeError)"

text \<open>
  \<open>NerfModel._sample_pdf\<close> for one ray; \<open>u\<close> is the row of \<open>num_samples\<close> quantiles that
  \<open>torch.rand\<close> draws from \<open>[0, 1)\<close>.
\<close>

definition sample_pdf :: "real list \<Rightarrow> real list \<Rightarrow> real list \<Rightarrow> error + real list" where
  "sample_pdf t_vals weights u =
     (let weights = map (\<lambda>w. w + 1 / 10 ^ 5) weights;
          pdf = map (\<lambda>w. w / sum_list weights) weights;
          cdf = cumsum pdf;
          cdf = map (\<lambda>_. 0) (take 1 cdf) @ cdf;
          indices = map (searchsorted_right cdf) u;
          below = map (\<lambda>i. clamp (i - 1) 0 (int (length cdf) - 1)) indices;
          above = map (\<lambda>i. clamp i 0 (int (length cdf) - 1)) indices
      in case gather cdf below of Inl e \<Rightarrow> Inl e | Inr cdf_g0 \<Rightarrow>
         case gather cdf above of Inl e \<Rightarrow> Inl e | Inr cdf_g1 \<Rightarrow>
         case gather t_vals below of Inl e \<Rightarrow> Inl e | Inr t_g0 \<Rightarrow>
         case gather t_vals above of Inl e \<Rightarrow> Inl e | Inr t_g1 \<Rightarrow>
           let denom = map2 (-) cdf_g1 cdf_g0;
               denom = map (\<lambda>d. if d < 1 / 10 ^ 5 then 1 else d) denom
           in Inr (map (\<lambda>(uq, c0, d, t0, t1). t0 + (uq - c0) / d * (t1 - t0))
                     (zip u (zip cdf_g0 (zip denom (zip t_g0 t_g1))))))"

section \<open>Properties\<close>

subsection \<open>Hash positions\<close>

lemma wrap_int64_id: "- (2 ^ 63) \<le> x \<Longrightarrow> x < 2 ^ 63 \<Longrightarrow> wrap_int64 x = x"
  by (simp add: wrap_int64_def)

lemma clamp_range: "lo \<le> hi \<Longrightarrow> lo \<le> clamp x lo hi \<and> clamp x lo hi \<le> hi"
  by (simp add: clamp_def)

lemma prod_in_int64:
  assumes "0 \<le> c" "c < 2 ^ 31" "0 \<le> p" "p < 2 ^ 32"
  shows "0 \<le> c * p \<and> c * p < (2::int) ^ 63"
proof -
  have "c * p \<le> (2 ^ 31 - 1) * p"
    using assms by (intro mult_right_mono) auto
  also have "\<dots> \<le> (2 ^ 31 - 1) * (2 ^ 32 - 1)"
    using assms by (intro mult_left_mono) auto
  also have "\<dots> < (2::int) ^ 63" by simp
  finally show ?thesis using assms by simp
qed

lemma wrap_prod:
  assumes "0 \<le> c" "c < 2 ^ 31" "0 \<le> p" "p < 2 ^ 32"
  shows "wrap_int64 (c * p) = c * p"
  using prod_in_int64 [OF assms] by (intro wrap_int64_id) auto

lemma hash_position_formula:
  assumes "1 \<le> N" "N < 2 ^ 31"
  shows "hash_position self (cx, cy, cz) N =
     ((clamp cx 0 (N - 1) * 1) XOR (clamp cy 0 (N - 1) * 2654435761)
        XOR (clamp cz 0 (N - 1) * 805459861)) mod hashmap_size_enc self"
proof -
  have r: "0 \<le> clamp x 0 (N - 1) \<and> clamp x 0 (N - 1) < 2 ^ 31" for x
    using clamp_range [of 0 "N - 1" x] assms by simp
  have w0: "wrap_int64 (clamp cx 0 (N - 1) * 1) = clamp cx 0 (N - 1) * 1"
    using r [of cx] by (intro wrap_prod) auto
  have w1: "wrap_int64 (clamp cy 0 (N - 1) * 2654435761) = clamp cy 0 (N - 1) * 2654435761"
    using r [of cy] by (intro wrap_prod) auto
  have w2: "wrap_int64 (clamp cz 0 (N - 1) * 805459861) = clamp cz 0 (N - 1) * 805459861"
    using r [of cz] by (intro wrap_prod) auto
  show ?thesis
    using w0 w1 w2 by (simp add: hash_position_def primes_def Let_def xor.assoc)
qed

lemma hash_position_range:
  assumes "0 < hashmap_size_enc self"
  shows "0 \<le> hash_position self c N \<and> hash_position self c N < hashmap_size_enc self"
  using assms by (cases c) (simp add: hash_position_def Let_def)

lemma encoder_ok_size: "encoder_ok self \<Longrightarrow> 0 < hashmap_size_enc self"
  by (auto simp: encoder_ok_def)

lemma lookup_corner_Inr:
  assumes "encoder_ok self"
  shows "lookup_corner self c N = Inr (hash_table self ! nat (hash_position self c N))"
proof -
  have "0 < hashmap_size_enc self" using assms by (rule encoder_ok_size)
  from hash_position_range [OF this, of c N] assms show ?thesis
    by (simp add: lookup_corner_def index_rows_def Let_def encoder_ok_def)
qed

lemma sequence_sum_map_Inr:
  assumes "\<And>x. x \<in> set xs \<Longrightarrow> f x = Inr (g x)"
  shows "sequence_sum (map f xs) = Inr (map g xs)"
  using assms by (induction xs) auto

lemma add_scale_zero:
  assumes "length a = length b"
  shows "add_rows (scale_row a 1) (scale_row b 0) = a"
  using assms by (induction a b rule: list_induct2) (auto simp: add_rows_def scale_row_def)

lemma length_corners_of: "length (corners_of g) = 8"
  by (cases g) (simp add: corners_of_def)

lemma table_row_length:
  assumes "encoder_ok self"
  shows "length (hash_table self ! nat (hash_position self c N)) = feature_dim self"
proof -
  have "0 < hashmap_size_enc self" using assms by (rule encoder_ok_size)
  from hash_position_range [OF this, of c N] assms
  have "nat (hash_position self c N) < length (hash_table self)"
    by (simp add: encoder_ok_def nat_less_iff)
  then show ?thesis using assms by (simp add: encoder_ok_def list_all_length)
qed

lemma forward_level_lookup:
  assumes "encoder_ok self"
  shows "forward_level self N (p0, p1, p2) =
     trilinear_interpolate
       (map (\<lambda>c. hash_table self ! nat (hash_position self c N))
          (corners_of (\<lfloor>p0 * real_of_int (N - 1)\<rfloor>, \<lfloor>p1 * real_of_int (N - 1)\<rfloor>,
                       \<lfloor>p2 * real_of_int (N - 1)\<rfloor>)))
       (p0 * real_of_int (N - 1) - real_of_int \<lfloor>p0 * real_of_int (N - 1)\<rfloor>,
        p1 * real_of_int (N - 1) - real_of_int \<lfloor>p1 * real_of_int (N - 1)\<rfloor>,
        p2 * real_of_int (N - 1) - real_of_int \<lfloor>p2 * real_of_int (N - 1)\<rfloor>)"
  by (simp add: forward_level_def Let_def
      sequence_sum_map_Inr [where g = "\<lambda>c. hash_table self ! nat (hash_position self c N)"]
      lookup_corner_Inr [OF assms])

lemma forward_level_total:
  assumes "encoder_ok self"
  shows "\<exists>row. forward_level self N p = Inr row"
  by (cases p) (simp add: forward_level_lookup [OF assms] trilinear_interpolate_def
      length_corners_of Let_def)

lemma forward_level_at_corner:
  assumes ok: "encoder_ok self"
    and "p0 * real_of_int (N - 1) = real_of_int cx"
    and "p1 * real_of_int (N - 1) = real_of_int cy"
    and "p2 * real_of_int (N - 1) = real_of_int cz"
  shows "forward_level self N (p0, p1, p2) = Inr (hash_table self ! nat (hash_position self (cx, cy, cz) N))"
proof -
  have len: "length (hash_table self ! nat (hash_position self c N))
      = length (hash_table self ! nat (hash_position self c' N))" for c c'
    by (simp add: table_row_length [OF ok])
  show ?thesis
    using assms(2-4)
    by (simp add: forward_level_lookup [OF ok] trilinear_interpolate_def corners_of_def
        Let_def add_scale_zero [OF len])
qed

lemma sequence_sum_all_Inr:
  assumes "\<And>x. x \<in> set xs \<Longrightarrow> \<exists>y. f x = Inr y"
  shows "\<exists>ys. sequence_sum (map f xs) = Inr ys \<and> length ys = length xs
            \<and> (\<forall>i<length xs. f (xs ! i) = Inr (ys ! i))"
  using assms
proof (induction xs)
  case Nil
  then show ?case by simp
next
  case (Cons x xs)
  from Cons.prems obtain y where y: "f x = Inr y" by auto
  from Cons obtain ys where ys: "sequence_sum (map f xs) = Inr ys" "length ys = length xs"
    "\<forall>i<length xs. f (xs ! i) = Inr (ys ! i)" by auto
  have "\<forall>i<length (x # xs). f ((x # xs) ! i) = Inr ((y # ys) ! i)"
    using y ys(3) by (auto simp: nth_Cons split: nat.splits)
  then show ?case using y ys by auto
qed

lemma level_resolution:
  assumes "encoder_ok self" "level < nat (num_levels self)"
  shows "index_rows (resolutions self) (int level) = Inr (resolutions self ! level)"
  using assms by (auto simp: encoder_ok_def index_rows_def Let_def)

lemma encoded_features_levels:
  assumes ok: "encoder_ok self"
  shows "\<exists>fs. encoded_features self (p0, p1, p2) = Inr fs
           \<and> length fs = nat (num_levels self)
           \<and> (\<forall>level<nat (num_levels self).
                 forward_level self (resolutions self ! level)
                   ((p0 + 1) * 0.5, (p1 + 1) * 0.5, (p2 + 1) * 0.5) = Inr (fs ! level))"
proof -
  let ?f = "\<lambda>level. case index_rows (resolutions self) (int level) of
                Inl e \<Rightarrow> Inl e
              | Inr resolution \<Rightarrow> forward_level self resolution
                   ((p0 + 1) * 0.5, (p1 + 1) * 0.5, (p2 + 1) * 0.5)"
  have f: "?f level = forward_level self (resolutions self ! level)
                   ((p0 + 1) * 0.5, (p1 + 1) * 0.5, (p2 + 1) * 0.5)"
    if "level < nat (num_levels self)" for level
    by (simp add: level_resolution [OF ok that])
  have "\<exists>y. ?f x = Inr y" if "x \<in> set [0..<nat (num_levels self)]" for x
    using that f [of x] forward_level_total [OF ok] by simp
  from sequence_sum_all_Inr [of "[0..<nat (num_levels self)]" ?f, OF this]
  obtain ys where ys: "sequence_sum (map ?f [0..<nat (num_levels self)]) = Inr ys"
    "length ys = nat (num_levels self)"
    "\<forall>i<nat (num_levels self). ?f i = Inr (ys ! i)"
    by auto
  have "\<forall>level<nat (num_levels self).
          forward_level self (resolutions self ! level)
            ((p0 + 1) * 0.5, (p1 + 1) * 0.5, (p2 + 1) * 0.5) = Inr (ys ! level)"
    using ys(3) f by simp
  then show ?thesis
    unfolding encoded_features_def Let_def prod.case using ys(1,2) by blast
qed

lemma forward_of_encoded_features:
  assumes "encoded_features self p = Inr fs" "length fs = nat (num_levels self)"
  shows "forward self p = (if num_levels self < 1 then Inl RuntimeError else Inr (concat fs))"
  using assms by (auto simp: forward_def)

lemma demo_encoding_ok: "encoder_ok demo_encoding"
  by (simp add: encoder_ok_def demo_encoding_def)

text \<open>
  \<open>__init__\<close> establishes the shape invariant: when every scaled resolution and
  \<open>max_resolution\<close> are at least 1, an encoder that is constructed satisfies \<open>encoder_ok\<close>.
\<close>

lemma HashEncoding_init_ok:
  assumes init: "HashEncoding_init n_levels base_res max_res log2_size feat_dim growth scaled randn
                   = Inr enc"
    and scaled: "\<forall>level < nat n_levels. 1 \<le> scaled level" and m: "1 \<le> max_res"
  shows "encoder_ok enc"
proof -
  define res where "res = map (\<lambda>level. min (py_int (scaled level)) max_res) [0..<nat n_levels]"
  have no_overflow: "\<not> list_ex (\<lambda>r. r < - (2 ^ 31) \<or> 2 ^ 31 \<le> r) res"
    using init unfolding HashEncoding_init_def Let_def res_def
    by (auto split: if_splits)
  have enc: "enc = \<lparr> num_levels = n_levels, feature_dim = feat_dim,
                     hashmap_size_enc = int (2 ^ log2_size), growth_factor = growth,
                     hash_table = map (\<lambda>i. map (\<lambda>j. randn i j * 0.0001) [0..<feat_dim])
                                    [0..<2 ^ log2_size],
                     resolutions = res \<rparr>"
    using init unfolding HashEncoding_init_def Let_def res_def
    by (auto split: if_splits)
  have low: "1 \<le> min (py_int (scaled level)) max_res" if "level < nat n_levels" for level
  proof -
    from scaled that have "1 \<le> scaled level" by simp
    then have "1 \<le> py_int (scaled level)"
      by (simp add: py_int_def le_floor_iff)
    then show ?thesis using m by simp
  qed
  have rng: "list_all (\<lambda>r. 1 \<le> r \<and> r < 2 ^ 31) res"
    using no_overflow low by (auto simp: res_def list_all_iff list_ex_iff not_le)
  show ?thesis
    using rng by (simp add: encoder_ok_def enc res_def list_all_iff)
qed

subsection \<open>The hash encoder\<close>

text \<open>
  Claim C5. For an encoder whose table has \<open>hashmap_size\<close> rows: for every level
  resolution \<open>N\<close> (a positive int32, as the buffer \<open>resolutions\<close> holds), \<open>_hash_position\<close> clamps
  each component of any integer corner into \<open>[0, N - 1]\<close> and returns
  \<open>((cx * 1) XOR (cy * 2654435761) XOR (cz * 805459861)) mod hashmap_size\<close> of the clamped
  components (the int64 products do not wrap); for every corner and every \<open>N\<close> whatsoever
  the index lies in \<open>[0, hashmap_size)\<close>, so the
  table lookup returns a row and the level loop of the encoder raises at no position
  (\<open>forward\<close> returns the concatenated rows whenever there is at least one level); two
  corners with equal indices read the same row.
\<close>

theorem hash_position_in_bounds:
  assumes ok: "encoder_ok self"
  shows "(1 \<le> N \<and> N < 2 ^ 31 \<longrightarrow>
          (let px = clamp cx 0 (N - 1); py = clamp cy 0 (N - 1); pz = clamp cz 0 (N - 1)
           in 0 \<le> px \<and> px \<le> N - 1 \<and> 0 \<le> py \<and> py \<le> N - 1 \<and> 0 \<le> pz \<and> pz \<le> N - 1
              \<and> hash_position self (cx, cy, cz) N
                  = ((px * 1) XOR (py * 2654435761) XOR (pz * 805459861))
                    mod hashmap_size_enc self))
       \<and> 0 \<le> hash_position self (cx, cy, cz) N
       \<and> hash_position self (cx, cy, cz) N < int (length (hash_table self))
       \<and> lookup_corner self (cx, cy, cz) N
            = Inr (hash_table self ! nat (hash_position self (cx, cy, cz) N))
       \<and> (\<exists>fs. encoded_features self p = Inr fs
              \<and> forward self p
                  = (if num_levels self < 1 then Inl RuntimeError else Inr (concat fs)))
       \<and> (hash_position self c' N = hash_position self (cx, cy, cz) N
            \<longrightarrow> lookup_corner self c' N = lookup_corner self (cx, cy, cz) N)"
proof -
  have size: "0 < hashmap_size_enc self" using ok by (rule encoder_ok_size)
  have len: "int (length (hash_table self)) = hashmap_size_enc self"
    using ok by (simp add: encoder_ok_def)
  have clamps: "0 \<le> clamp x 0 (N - 1) \<and> clamp x 0 (N - 1) \<le> N - 1" if "1 \<le> N" for x
    using clamp_range [of 0 "N - 1" x] that by simp
  have formula: "hash_position self (cx, cy, cz) N =
     ((clamp cx 0 (N - 1) * 1) XOR (clamp cy 0 (N - 1) * 2654435761)
        XOR (clamp cz 0 (N - 1) * 805459861)) mod hashmap_size_enc self"
    if "1 \<le> N" "N < 2 ^ 31"
    using that by (rule hash_position_formula)
  have range: "0 \<le> hash_position self (cx, cy, cz) N
      \<and> hash_position self (cx, cy, cz) N < int (length (hash_table self))"
    using hash_position_range [OF size, of "(cx, cy, cz)" N] len by simp
  have look: "lookup_corner self (cx, cy, cz) N
      = Inr (hash_table self ! nat (hash_position self (cx, cy, cz) N))"
    using ok by (rule lookup_corner_Inr)
  have total: "\<exists>fs. encoded_features self p = Inr fs
      \<and> forward self p = (if num_levels self < 1 then Inl RuntimeError else Inr (concat fs))"
  proof -
    obtain p0 p1 p2 where p: "p = (p0, p1, p2)" by (cases p) auto
    from encoded_features_levels [OF ok, of p0 p1 p2] obtain fs where
      "encoded_features self p = Inr fs" "length fs = nat (num_levels self)"
      unfolding p by blast
    then show ?thesis using forward_of_encoded_features by blast
  qed
  have shared: "hash_position self c' N = hash_position self (cx, cy, cz) N
      \<longrightarrow> lookup_corner self c' N = lookup_corner self (cx, cy, cz) N"
    by (simp add: lookup_corner_def)
  show ?thesis
    unfolding Let_def using clamps formula range look total shared by blast
qed

theorem hash_position_in_bounds_witness:
  "encoder_ok demo_encoding \<and> (1::int) \<le> 3 \<and> (3::int) < 2 ^ 31
   \<and> hash_position demo_encoding (1, 0, 0) 3 = 1
   \<and> hash_position demo_encoding (0, 1, 0) 3 = 1
   \<and> lookup_corner demo_encoding (1, 0, 0) 3 = Inr [3, 4]
   \<and> lookup_corner demo_encoding (0, 1, 0) 3 = Inr [3, 4]
   \<and> (\<exists>fs. encoded_features demo_encoding (5, - 7, 0) = Inr fs
          \<and> forward demo_encoding (5, - 7, 0) = Inr (concat fs))"
proof -
  have h: "hash_position demo_encoding (0, 1, 0) 3 = hash_position demo_encoding (1, 0, 0) 3"
    by (simp add: hash_position_def demo_encoding_def clamp_def wrap_int64_def primes_def)
  have v: "hash_position demo_encoding (1, 0, 0) 3 = 1"
    by (simp add: hash_position_def demo_encoding_def clamp_def wrap_int64_def primes_def)
  have t: "hash_table demo_encoding ! nat 1 = [3, 4]"
    by (simp add: demo_encoding_def)
  have n: "\<not> num_levels demo_encoding < 1"
    by (simp add: demo_encoding_def)
  from hash_position_in_bounds [OF demo_encoding_ok, of 3 1 0 0 "(5, - 7, 0)" "(0, 1, 0)"] h v t n
  show ?thesis by (simp add: demo_encoding_ok)
qed

text \<open>
  Claim C9. For every level and every lattice coordinate \<open>c\<close> with components in
  \<open>[0, N - 1]\<close>, at a position whose scaled coordinates are exactly \<open>c\<close> (so that all three
  interpolation weights are zero) the encoder does not raise, and its output for that level
  (the entry \<open>encoded_features[level]\<close> that \<open>forward\<close> concatenates) is exactly the table
  row addressed by the hash index of \<open>c\<close>.
\<close>

theorem lattice_corner_feature:
  assumes ok: "encoder_ok self"
    and level: "level < nat (num_levels self)" and N: "N = resolutions self ! level"
    and c: "0 \<le> cx" "cx \<le> N - 1" "0 \<le> cy" "cy \<le> N - 1" "0 \<le> cz" "cz \<le> N - 1"
    and p: "(p0 + 1) * 0.5 * real_of_int (N - 1) = real_of_int cx"
           "(p1 + 1) * 0.5 * real_of_int (N - 1) = real_of_int cy"
           "(p2 + 1) * 0.5 * real_of_int (N - 1) = real_of_int cz"
  shows "\<exists>fs. encoded_features self (p0, p1, p2) = Inr fs
           \<and> forward self (p0, p1, p2) = Inr (concat fs)
           \<and> index_rows (hash_table self)
                ((cx XOR (cy * 2654435761) XOR (cz * 805459861)) mod hashmap_size_enc self)
              = Inr (fs ! level)"
proof -
  have res: "1 \<le> N \<and> N < 2 ^ 31"
    using ok level N by (auto simp: encoder_ok_def list_all_length)
  have cl: "clamp cx 0 (N - 1) = cx" "clamp cy 0 (N - 1) = cy" "clamp cz 0 (N - 1) = cz"
    using c by (simp_all add: clamp_def)
  have idx: "hash_position self (cx, cy, cz) N
      = (cx XOR (cy * 2654435761) XOR (cz * 805459861)) mod hashmap_size_enc self"
    using hash_position_formula [of N self cx cy cz] res cl by simp
  from encoded_features_levels [OF ok, of p0 p1 p2] obtain fs where
    fs: "encoded_features self (p0, p1, p2) = Inr fs"
      "\<forall>l<nat (num_levels self). forward_level self (resolutions self ! l)
           ((p0 + 1) * 0.5, (p1 + 1) * 0.5, (p2 + 1) * 0.5) = Inr (fs ! l)"
      "length fs = nat (num_levels self)"
    by blast
  have fwd: "forward self (p0, p1, p2) = Inr (concat fs)"
    using forward_of_encoded_features [OF fs(1,3)] level by simp
  have "forward_level self N ((p0 + 1) * 0.5, (p1 + 1) * 0.5, (p2 + 1) * 0.5)
      = Inr (hash_table self ! nat (hash_position self (cx, cy, cz) N))"
    using ok p by (rule forward_level_at_corner)
  with fs(2) level N have "fs ! level = hash_table self ! nat (hash_position self (cx, cy, cz) N)"
    by simp
  moreover have "lookup_corner self (cx, cy, cz) N
      = Inr (hash_table self ! nat (hash_position self (cx, cy, cz) N))"
    using ok by (rule lookup_corner_Inr)
  ultimately show ?thesis using fs(1) fwd idx by (auto simp: lookup_corner_def)
qed

theorem lattice_corner_feature_witness:
  "encoder_ok demo_encoding \<and> (0::nat) < nat (num_levels demo_encoding)
   \<and> resolutions demo_encoding ! 0 = 3
   \<and> (0 + 1) * 0.5 * real_of_int (3 - 1) = real_of_int 1
   \<and> (- 1 + 1) * 0.5 * real_of_int (3 - 1) = real_of_int 0
   \<and> (1 + 1) * 0.5 * real_of_int (3 - 1) = real_of_int 2
   \<and> (\<exists>fs. encoded_features demo_encoding (0, - 1, 1) = Inr fs
          \<and> forward demo_encoding (0, - 1, 1) = Inr (concat fs) \<and> fs ! 0 = [7, 8])"
proof -
  have a: "(0::nat) < nat (num_levels demo_encoding)" "(3::int) = resolutions demo_encoding ! 0"
    by (simp_all add: demo_encoding_def)
  have i: "index_rows (hash_table demo_encoding)
             (((1::int) XOR (0 * 2654435761) XOR (2 * 805459861)) mod hashmap_size_enc demo_encoding)
           = Inr [7, 8]"
    by (simp add: demo_encoding_def index_rows_def)
  from lattice_corner_feature [OF demo_encoding_ok a, of 1 0 2 0 "- 1" 1] i
  show ?thesis using a by (auto simp: demo_encoding_ok)
qed

subsection \<open>The volume integrator\<close>

lemma sum_list_all_zero:
  assumes "\<And>x. x \<in> set xs \<Longrightarrow> x = (0::real)"
  shows "sum_list xs = 0"
  using assms by (induction xs) auto

lemma sum_list_map2_zero:
  assumes "\<And>x y. (x, y) \<in> set (zip xs ys) \<Longrightarrow> f x y = (0::real)"
  shows "sum_list (map2 f xs ys) = 0"
  using assms by (intro sum_list_all_zero) auto

lemma compute_alpha_zero:
  assumes "list_all (\<lambda>d. d = 0) densities"
  shows "\<forall>a \<in> set (compute_alpha densities t_vals). a = 0"
  using assms by (auto simp: compute_alpha_def list_all_iff dest!: set_zip_leftD)

lemma weights_zero:
  assumes "\<forall>a \<in> set alpha. a = (0::real)"
  shows "\<forall>w \<in> set (map2 (*) alpha transmittance). w = 0"
  using assms by (auto dest!: set_zip_leftD)

lemma accumulate_colors_zero:
  assumes "\<forall>w \<in> set weights. w = 0"
  shows "accumulate_colors weights colors = [0, 0, 0]"
  using assms
  by (auto simp: accumulate_colors_def intro!: sum_list_map2_zero dest!: set_zip_leftD)

text \<open>
  Claim C2, as the code has it. For every ray whose sample densities are all zero,
  \<open>volume_render\<close> returns accumulated alpha exactly 0, and RGB exactly \<open>(1, 1, 1)\<close> when the
  scene sets \<open>use_white_background\<close> (each channel gains \<open>1 - acc_alpha\<close>) and exactly
  \<open>(0, 0, 0)\<close> otherwise. The field \<open>background_color\<close> is not read.
\<close>

theorem empty_scene_render:
  assumes "list_all (\<lambda>d. d = 0) densities"
  shows "volume_render scene_config colors densities t_vals
     = (if use_white_background scene_config then [1, 1, 1, 0] else [0, 0, 0, 0])"
proof -
  let ?alpha = "compute_alpha densities t_vals"
  let ?w = "map2 (*) ?alpha (compute_transmittance ?alpha)"
  have w: "\<forall>w \<in> set ?w. w = 0"
    using compute_alpha_zero [OF assms] by (rule weights_zero)
  have acc: "sum_list ?w = 0"
    using w by (intro sum_list_all_zero) auto
  have rgb: "accumulate_colors ?w colors = [0, 0, 0]"
    using w by (rule accumulate_colors_zero)
  show ?thesis
    by (simp add: volume_render_def Let_def acc rgb)
qed

theorem empty_scene_render_witness:
  "list_all (\<lambda>d. d = (0::real)) [0, 0]
   \<and> volume_render \<lparr> background_color = (1, 1, 1), use_white_background = True \<rparr>
        [(0.2, 0.4, 0.6), (0.9, 0.1, 0.3)] [0, 0] [2, 6] = [1, 1, 1, 0]"
  using empty_scene_render [of "[0, 0]" "\<lparr> background_color = (1, 1, 1), use_white_background = True \<rparr>"
      "[(0.2, 0.4, 0.6), (0.9, 0.1, 0.3)]" "[2, 6]"]
  by simp

text \<open>
  A scene configured with a grey background and \<open>use_white_background\<close> renders the empty
  ray white, not grey.
\<close>

theorem empty_scene_background_counterexample:
  "take 3 (volume_render \<lparr> background_color = (1 / 2, 1 / 2, 1 / 2), use_white_background = True \<rparr>
             [(0.2, 0.4, 0.6), (0.9, 0.1, 0.3)] [0, 0] [2, 6])
   \<noteq> (case background_color \<lparr> background_color = (1 / 2, 1 / 2, 1 / 2), use_white_background = True \<rparr>
        of (r, g, b) \<Rightarrow> [r, g, b])"
  by (simp add: volume_render_def compute_alpha_def compute_dists_def compute_transmittance_def
      cumprod_def accumulate_colors_def)

lemma exp_minus_half: "exp (- x) \<le> (1 / 2 :: real)" if "1 \<le> x"
proof -
  have "2 \<le> 1 + x" using that by simp
  also have "\<dots> \<le> exp x" by (rule exp_ge_add_one_self)
  finally have "2 \<le> exp x" .
  then have "1 / exp x \<le> 1 / 2" by (intro divide_left_mono) simp_all
  then show ?thesis by (simp add: exp_minus inverse_eq_divide)
qed

text \<open>
  The loop leaves the initial transmittance (all ones) as it is: the first index updates
  nothing, the mask \<open>accumulated_alpha > 0.99\<close> is false at \<open>accumulated_alpha = 0\<close>, and the
  \<open>break\<close> ends the loop.
\<close>

lemma early_termination_loop_first_only:
  assumes "alpha \<noteq> []"
  shows "early_termination_loop [0..<length alpha] alpha 0 transmittance = transmittance"
proof -
  from assms have "[0..<length alpha] = 0 # [1..<length alpha]"
    by (simp add: upt_conv_Cons)
  then show ?thesis by simp
qed

lemma map2_times_ones: "map2 (*) alpha (map (\<lambda>_. 1) alpha) = (alpha :: real list)"
  by (induction alpha) auto

text \<open>
  On every ray with at least two samples the weights of \<open>volume_render_optimized\<close> are the
  alpha values themselves: no transmittance enters the result.
\<close>

lemma volume_render_optimized_weights:
  assumes "compute_alpha densities t_vals \<noteq> []"
  shows "volume_render_optimized scene_config colors densities t_vals =
     Inr (let alpha = compute_alpha densities t_vals;
              rgb = accumulate_colors alpha colors;
              acc_alpha = sum_list alpha
          in (if use_white_background scene_config
              then map (\<lambda>c. c + (1 - acc_alpha)) rgb else rgb) @ [acc_alpha])"
  using assms
  by (simp add: volume_render_optimized_def Let_def early_termination_loop_first_only
      map2_times_ones)

text \<open>
  Claim C1 at the ray with two samples of density 1 at distances 0 and 1, all colours white,
  no background: \<open>volume_render_optimized\<close> weights both samples by their alpha alone, and its
  accumulated alpha exceeds that of \<open>volume_render\<close> by more than \<open>1 / 5\<close>, far beyond the
  early-termination tolerance of \<open>1e-3\<close>.
\<close>

theorem early_termination_diverges:
  "\<exists>out. volume_render_optimized \<lparr> background_color = (1, 1, 1), use_white_background = False \<rparr>
            [(1, 1, 1), (1, 1, 1)] [1, 1] [0, 1] = Inr out
         \<and> out ! 3 - volume_render \<lparr> background_color = (1, 1, 1), use_white_background = False \<rparr>
                        [(1, 1, 1), (1, 1, 1)] [1, 1] [0, 1] ! 3 > 1 / 5"
proof -
  define e1 :: real where "e1 = exp (- 1)"
  define e2 :: real where "e2 = exp (- 10000000000)"
  have b1: "0 < e1" "e1 \<le> 1 / 2"
    using exp_minus_half [of 1] by (simp_all add: e1_def)
  have b2: "0 < e2" "e2 \<le> 1 / 2"
    using exp_minus_half [of 10000000000] by (simp_all add: e2_def)
  have alpha: "compute_alpha [1, 1] [0, 1] = [1 - e1, 1 - e2]"
    by (simp add: compute_alpha_def compute_dists_def e1_def e2_def)
  have opt: "volume_render_optimized \<lparr> background_color = (1, 1, 1), use_white_background = False \<rparr>
            [(1, 1, 1), (1, 1, 1)] [1, 1] [0, 1]
        = Inr [1 - e1 + (1 - e2), 1 - e1 + (1 - e2), 1 - e1 + (1 - e2), 1 - e1 + (1 - e2)]"
    by (simp add: volume_render_optimized_def alpha accumulate_colors_def Let_def)
  have plain: "volume_render \<lparr> background_color = (1, 1, 1), use_white_background = False \<rparr>
            [(1, 1, 1), (1, 1, 1)] [1, 1] [0, 1] ! 3
        = 1 - e1 + (1 - e2) * (e1 + 1 / 10 ^ 10)"
    by (simp add: volume_render_def alpha compute_transmittance_def cumprod_def
        accumulate_colors_def Let_def)
  have "(1 - e2) * (1 - e1 - 1 / 10 ^ 10) \<ge> (1 / 2) * (1 / 2 - 1 / 10 ^ 10)"
    using b1 b2 by (intro mult_mono) simp_all
  then have "(1 - e2) * (1 - e1 - 1 / 10 ^ 10) > 1 / 5" by simp
  moreover have "1 - e1 + (1 - e2) - (1 - e1 + (1 - e2) * (e1 + 1 / 10 ^ 10))
      = (1 - e2) * (1 - e1 - 1 / 10 ^ 10)"
    by (simp add: field_simps)
  ultimately show ?thesis
    using opt plain by simp
qed

subsection \<open>Inverse-CDF sampling\<close>

text \<open>
  With a single coarse sample the CDF is \<open>[0, 1]\<close>; every quantile of \<open>[0, 1)\<close> is located in
  bucket 1 and \<open>above = 1\<close> is not an index of \<open>t_vals\<close>.
\<close>

lemma sample_pdf_single_coarse_sample:
  assumes "0 \<le> w" "0 \<le> u" "u < 1"
  shows "sample_pdf [t] [w] [u] = Inl RuntimeError"
  using assms
  by (simp add: sample_pdf_def cumsum_def Let_def searchsorted_right_def clamp_def gather_def)

text \<open>
  Claim C4 at coarse distances \<open>[2, 6]\<close>, weights \<open>[1, 1]\<close> and the quantile \<open>3 / 4\<close>: the CDF
  is \<open>[0, 1 / 2, 1]\<close>, \<open>searchsorted\<close> returns 2, \<open>above\<close> is clamped to
  \<open>cdf.shape[-1] - 1 = 2\<close>, and \<open>torch.gather(t_vals, -1, above)\<close> reads index 2 of a row of
  two entries: the lookup is out of bounds and raises.
\<close>

theorem sample_pdf_gather_out_of_bounds:
  "sample_pdf [2, 6] [1, 1] [3 / 4] = Inl RuntimeError"
  by (simp add: sample_pdf_def cumsum_def Let_def searchsorted_right_def clamp_def gather_def)

subsection \<open>The direction encoder\<close>

text \<open>
  Claim C8 at degree 5 and the direction \<open>(0, 0, 1)\<close>: \<open>output_dim\<close> is \<open>36\<close>, the feature list
  holds the 25 entries of degrees 0 to 4, and the encoder returns 25 features.
\<close>

theorem sh_forward_degree_five:
  "\<exists>fs. sh_forward (SphericalHarmonicsEncoding_init 5) (0, 0, 1) = Inr fs
        \<and> length fs = 25
        \<and> output_dim (SphericalHarmonicsEncoding_init 5) = 36"
  by (simp add: sh_forward_def SphericalHarmonicsEncoding_init_def F_normalize_def norm3_def Let_def)

text \<open>
  For degrees 0 to 4 the encoder returns \<open>(D + 1)\<^sup>2\<close> features; from degree 5 on it
  returns 25.
\<close>

lemma sh_forward_length:
  assumes "0 \<le> D"
  shows "\<exists>fs. sh_forward (SphericalHarmonicsEncoding_init D) v = Inr fs
           \<and> length fs = (if D \<le> 4 then nat ((D + 1) ^ 2) else 25)"
proof -
  obtain x y z where n: "F_normalize v = (x, y, z)" by (cases "F_normalize v") auto
  consider "D = 0" | "D = 1" | "D = 2" | "D = 3" | "D = 4" | "5 \<le> D"
    using assms by linarith
  then show ?thesis
  proof cases
    case 6
    then have "(25::nat) \<le> nat ((D + 1) ^ 2)"
    proof -
      from 6 have "6 * 6 \<le> (D + 1) * (D + 1)" by (intro mult_mono) simp_all
      then show ?thesis by (simp add: power2_eq_square)
    qed
    with 6 show ?thesis
      by (simp add: sh_forward_def SphericalHarmonicsEncoding_init_def n Let_def)
  qed (simp_all add: sh_forward_def SphericalHarmonicsEncoding_init_def n Let_def)
qed

lemma norm3_scale:
  assumes "0 < k"
  shows "norm3 (k * x, k * y, k * z) = k * norm3 (x, y, z)"
proof -
  have "(k * x) ^ 2 + (k * y) ^ 2 + (k * z) ^ 2 = k ^ 2 * (x ^ 2 + y ^ 2 + z ^ 2)"
    by (simp add: power_mult_distrib distrib_left)
  then have "norm3 (k * x, k * y, k * z) = sqrt (k ^ 2) * sqrt (x ^ 2 + y ^ 2 + z ^ 2)"
    by (simp add: norm3_def real_sqrt_mult)
  then show ?thesis using assms by (simp add: norm3_def)
qed

text \<open>Within the float32 range and above the floor, \<open>F.normalize\<close> divides by the norm.\<close>

lemma F_normalize_in_range:
  assumes "1 / 10 ^ 12 \<le> norm3 (x, y, z)" "x ^ 2 + y ^ 2 + z ^ 2 \<le> float32_max"
  shows "F_normalize (x, y, z)
     = (x / norm3 (x, y, z), y / norm3 (x, y, z), z / norm3 (x, y, z))"
proof -
  have "max (norm3 (x, y, z)) (1 / 10 ^ 12) = norm3 (x, y, z)"
    using assms(1) by (simp add: max_def)
  moreover have "\<not> float32_max < x ^ 2 + y ^ 2 + z ^ 2"
    using assms(2) by simp
  ultimately show ?thesis
    unfolding F_normalize_def Let_def prod.case by (simp only: if_False)
qed

text \<open>Below the floor, and within the float32 range, it divides by \<open>1e-12\<close>.\<close>

lemma F_normalize_floor:
  assumes "norm3 (x, y, z) \<le> 1 / 10 ^ 12" "x ^ 2 + y ^ 2 + z ^ 2 \<le> float32_max"
  shows "F_normalize (x, y, z) = (x / (1 / 10 ^ 12), y / (1 / 10 ^ 12), z / (1 / 10 ^ 12))"
proof -
  have "max (norm3 (x, y, z)) (1 / 10 ^ 12) = 1 / 10 ^ 12"
    using assms(1) by (simp add: max_def)
  moreover have "\<not> float32_max < x ^ 2 + y ^ 2 + z ^ 2"
    using assms(2) by simp
  ultimately show ?thesis
    unfolding F_normalize_def Let_def prod.case by (simp only: if_False)
qed

lemma float32_max_ge: "1 \<le> float32_max"
  by (simp add: float32_max_def)

lemma F_normalize_scale:
  assumes "1 / 10 ^ 12 \<le> norm3 (x, y, z)" "0 < k" "1 / 10 ^ 12 \<le> norm3 (k * x, k * y, k * z)"
    and "x ^ 2 + y ^ 2 + z ^ 2 \<le> float32_max"
    and "(k * x) ^ 2 + (k * y) ^ 2 + (k * z) ^ 2 \<le> float32_max"
  shows "F_normalize (k * x, k * y, k * z) = F_normalize (x, y, z)"
proof -
  have s: "norm3 (k * x, k * y, k * z) = k * norm3 (x, y, z)"
    using assms(2) by (rule norm3_scale)
  have a: "F_normalize (x, y, z)
     = (x / norm3 (x, y, z), y / norm3 (x, y, z), z / norm3 (x, y, z))"
    using assms(1,4) by (rule F_normalize_in_range)
  have b: "F_normalize (k * x, k * y, k * z)
     = (k * x / (k * norm3 (x, y, z)), k * y / (k * norm3 (x, y, z)), k * z / (k * norm3 (x, y, z)))"
    using F_normalize_in_range [OF assms(3,5)] by (simp only: s)
  show ?thesis
    unfolding a b using assms(2) by simp
qed

text \<open>
  Claim C6, as the code has it. \<open>F.normalize\<close> divides by \<open>max(norm, 1e-12)\<close>, and the sum of
  squares under the norm overflows beyond the largest float32. For every direction \<open>v\<close> and
  scalar \<open>k > 0\<close> such that \<open>v\<close> and \<open>k v\<close> both have a norm of at least \<open>1e-12\<close> and a sum of
  squares of at most \<open>float32_max\<close> (a norm of at most about \<open>1.8e19\<close>), the encoder returns
  the same features for \<open>v\<close> and \<open>k v\<close>.
\<close>

theorem sh_forward_scale_invariant:
  assumes "1 / 10 ^ 12 \<le> norm3 (x, y, z)" and "0 < k"
    and "1 / 10 ^ 12 \<le> norm3 (k * x, k * y, k * z)"
    and "x ^ 2 + y ^ 2 + z ^ 2 \<le> float32_max"
    and "(k * x) ^ 2 + (k * y) ^ 2 + (k * z) ^ 2 \<le> float32_max"
  shows "sh_forward self (k * x, k * y, k * z) = sh_forward self (x, y, z)"
  by (simp only: sh_forward_def F_normalize_scale [OF assms])

lemma norm3_axis: "0 \<le> a \<Longrightarrow> norm3 (a, 0, 0) = a"
  by (simp add: norm3_def)

theorem sh_forward_scale_invariant_witness:
  "1 / 10 ^ 12 \<le> norm3 (3, 0, 0) \<and> (0::real) < 2 \<and> 1 / 10 ^ 12 \<le> norm3 (2 * 3, 2 * 0, 2 * 0)
   \<and> (3::real) ^ 2 + 0 ^ 2 + 0 ^ 2 \<le> float32_max
   \<and> (2 * 3 :: real) ^ 2 + (2 * 0) ^ 2 + (2 * 0) ^ 2 \<le> float32_max
   \<and> sh_forward (SphericalHarmonicsEncoding_init 4) (2 * 3, 2 * 0, 2 * 0)
       = sh_forward (SphericalHarmonicsEncoding_init 4) (3, 0, 0)"
proof -
  have a: "1 / 10 ^ 12 \<le> norm3 (3, 0, 0)" "1 / 10 ^ 12 \<le> norm3 (2 * 3, 2 * 0, 2 * 0)"
    by (simp_all add: norm3_axis)
  have b: "(3::real) ^ 2 + 0 ^ 2 + 0 ^ 2 \<le> float32_max"
    "(2 * 3 :: real) ^ 2 + (2 * 0) ^ 2 + (2 * 0) ^ 2 \<le> float32_max"
    by (simp_all add: float32_max_def)
  have k: "(0::real) < 2" by simp
  from sh_forward_scale_invariant [OF a(1) k a(2) b, of "SphericalHarmonicsEncoding_init 4"] a b
  show ?thesis by simp
qed

text \<open>
  Below the floor the input is divided by \<open>1e-12\<close> and not by its norm: the direction
  \<open>(1e-13, 0, 0)\<close> is encoded as \<open>(0.1, 0, 0)\<close> and ten times that direction as \<open>(1, 0, 0)\<close>;
  the fourth feature differs by more than \<open>2 / 5\<close>.
\<close>

theorem sh_forward_tiny_norm_counterexample:
  "\<exists>f g. sh_forward (SphericalHarmonicsEncoding_init 4) (10 * (1 / 10 ^ 13), 10 * 0, 10 * 0) = Inr f
        \<and> sh_forward (SphericalHarmonicsEncoding_init 4) (1 / 10 ^ 13, 0, 0) = Inr g
        \<and> 0 < norm3 (1 / 10 ^ 13, 0, 0)
        \<and> \<bar>f ! 3 - g ! 3\<bar> > 2 / 5"
proof -
  have small: "(1 / 10 ^ 12 :: real) ^ 2 + 0 ^ 2 + 0 ^ 2 \<le> float32_max"
    "(1 / 10 ^ 13 :: real) ^ 2 + 0 ^ 2 + 0 ^ 2 \<le> float32_max"
    using float32_max_ge by (simp_all add: power_divide)
  have "F_normalize (1 / 10 ^ 12, 0, 0)
      = (1 / 10 ^ 12 / (1 / 10 ^ 12), 0 / (1 / 10 ^ 12), 0 / (1 / 10 ^ 12))"
    using small(1) by (intro F_normalize_floor) (simp_all add: norm3_axis)
  then have n1: "F_normalize (10 * (1 / 10 ^ 13), 10 * 0, 10 * 0) = (1, 0, 0)"
    by simp
  have "F_normalize (1 / 10 ^ 13, 0, 0)
      = (1 / 10 ^ 13 / (1 / 10 ^ 12), 0 / (1 / 10 ^ 12), 0 / (1 / 10 ^ 12))"
    using small(2) by (intro F_normalize_floor) (simp_all add: norm3_axis)
  then have n2: "F_normalize (1 / 10 ^ 13, 0, 0) = (1 / 10, 0, 0)"
    by simp
  have n3: "0 < norm3 (1 / 10 ^ 13, 0, 0)"
    using norm3_axis [of "1 / 10 ^ 13"] by simp
  show ?thesis
    using n1 n2 n3 by (simp add: sh_forward_def SphericalHarmonicsEncoding_init_def Let_def)
qed

text \<open>
  Above the float32 range the sum of squares overflows and the input is encoded as the zero
  vector: the direction \<open>(1, 0, 0)\<close> and \<open>1e20\<close> times that direction differ in the fourth
  feature by more than \<open>2 / 5\<close>, although both norms are above the floor.
\<close>

lemma sh_forward_overflow_example:
  "\<exists>f g. sh_forward (SphericalHarmonicsEncoding_init 4) (10 ^ 20 * 1, 10 ^ 20 * 0, 10 ^ 20 * 0) = Inr f
        \<and> sh_forward (SphericalHarmonicsEncoding_init 4) (1, 0, 0) = Inr g
        \<and> 1 / 10 ^ 12 \<le> norm3 (1, 0, 0) \<and> 1 / 10 ^ 12 \<le> norm3 (10 ^ 20 * 1, 10 ^ 20 * 0, 10 ^ 20 * 0)
        \<and> \<bar>f ! 3 - g ! 3\<bar> > 2 / 5"
proof -
  have big: "float32_max < (10 ^ 20 :: real) ^ 2 + 0 ^ 2 + 0 ^ 2"
    by (simp add: float32_max_def)
  have "F_normalize (10 ^ 20, 0, 0) = (0, 0, 0)"
    unfolding F_normalize_def prod.case using big by (simp only: if_True)
  then have n1: "F_normalize (10 ^ 20 * 1, 10 ^ 20 * 0, 10 ^ 20 * 0) = (0, 0, 0)"
    by simp
  have "F_normalize (1, 0, 0) = (1 / norm3 (1, 0, 0), 0 / norm3 (1, 0, 0), 0 / norm3 (1, 0, 0))"
    using float32_max_ge by (intro F_normalize_in_range) (simp_all add: norm3_axis)
  then have n2: "F_normalize (1, 0, 0) = (1, 0, 0)"
    by (simp add: norm3_axis)
  have n3: "1 / 10 ^ 12 \<le> norm3 (1, 0, 0)" "1 / 10 ^ 12 \<le> norm3 (10 ^ 20 * 1, 10 ^ 20 * 0, 10 ^ 20 * 0)"
    using norm3_axis [of 1] norm3_axis [of "10 ^ 20"] by simp_all
  show ?thesis
    using n1 n2 n3 by (simp add: sh_forward_def SphericalHarmonicsEncoding_init_def Let_def)
qed

lemma compute_dists_pos:
  assumes "sorted_wrt (<) t_vals"
  shows "\<forall>d \<in> set (compute_dists t_vals). 0 < d"
proof -
  have "0 < a - b" if "(a, b) \<in> set (zip (drop 1 t_vals) (butlast t_vals))" for a b
  proof -
    from that obtain i where i: "i < length (drop 1 t_vals)" "i < length (butlast t_vals)"
      "a = drop 1 t_vals ! i" "b = butlast t_vals ! i"
      by (auto simp: set_zip)
    then have "a = t_vals ! Suc i" "b = t_vals ! i" "Suc i < length t_vals"
      by (simp_all add: nth_butlast)
    with assms show ?thesis
      using sorted_wrt_nth_less [of "(<)" t_vals i "Suc i"] by simp
  qed
  then show ?thesis
    by (auto simp: compute_dists_def Let_def dest: in_set_takeD)
qed

lemma sample_t_vals_nth:
  assumes "2 \<le> S" "length rand = S" "i < S"
  shows "sample_t_vals True near far S rand ! i
     = near + real i * ((far - near) / real (S - 1)) + rand ! i * (far - near) / real S"
  using assms by (simp add: sample_t_vals_def linspace_def Let_def)

lemma length_sample_t_vals:
  assumes "2 \<le> S" "length rand = S"
  shows "length (sample_t_vals True near far S rand) = S"
  using assms by (simp add: sample_t_vals_def linspace_def Let_def)

subsection \<open>Stratified sampling with jitter\<close>

text \<open>
  Claim C10. In training mode, for \<open>S \<ge> 2\<close> samples and \<open>near < far\<close>, with every noise term
  \<open>rand\<^sub>i * (far - near) / S\<close> drawn from \<open>rand\<^sub>i\<close> in \<open>[0, 1)\<close>, the jittered distances
  \<open>linspace(near, far, S) + noise\<close> are strictly ascending without sorting (the jitter is
  below the spacing \<open>(far - near) / (S - 1)\<close>), so every interval the integrator computes
  from them is positive.
\<close>

theorem jittered_samples_ascending:
  assumes S: "2 \<le> S" and nf: "near < far" and len: "length rand = S"
    and rand: "list_all (\<lambda>r. 0 \<le> r \<and> r < 1) rand"
  shows "sorted_wrt (<) (sample_t_vals True near far S rand)
       \<and> length (sample_t_vals True near far S rand) = S
       \<and> list_all (\<lambda>d. 0 < d) (compute_dists (sample_t_vals True near far S rand))"
proof -
  let ?t = "sample_t_vals True near far S rand"
  define w where "w = far - near"
  define step where "step = w / real (S - 1)"
  have w: "0 < w" using nf by (simp add: w_def)
  have step: "0 < step" using w S by (simp add: step_def)
  have bin: "w / real S \<le> step"
    unfolding step_def using w S by (intro divide_left_mono) simp_all
  have lt: "?t ! i < ?t ! j" if "i < j" "j < S" for i j
  proof -
    have ri: "rand ! i < 1" and rj: "0 \<le> rand ! j"
      using rand len that by (simp_all add: list_all_length)
    have ti: "?t ! i = near + real i * step + rand ! i * w / real S"
      using sample_t_vals_nth [OF S len, of i] that by (simp add: step_def w_def)
    have tj: "?t ! j = near + real j * step + rand ! j * w / real S"
      using sample_t_vals_nth [OF S len, of j] that by (simp add: step_def w_def)
    have "rand ! i * (w / real S) < 1 * (w / real S)"
      using ri w S by (intro mult_strict_right_mono) simp_all
    then have noise_i: "rand ! i * w / real S < step" using bin by simp
    have noise_j: "0 \<le> rand ! j * w / real S"
      using rj w by simp
    have "real i + 1 \<le> real j" using that by simp
    then have "(real i + 1) * step \<le> real j * step"
      using step by (intro mult_right_mono) simp_all
    then have "real i * step + step \<le> real j * step" by (simp add: algebra_simps)
    with noise_i noise_j show ?thesis unfolding ti tj by linarith
  qed
  have length: "length ?t = S" using S len by (rule length_sample_t_vals)
  have sorted: "sorted_wrt (<) ?t"
    unfolding sorted_wrt_iff_nth_less using lt length by simp
  have "\<forall>d \<in> set (compute_dists ?t). 0 < d"
    using sorted by (rule compute_dists_pos)
  then show ?thesis using sorted length by (simp add: list_all_iff)
qed

theorem jittered_samples_ascending_witness:
  "(2::nat) \<le> 2 \<and> (2::real) < 6 \<and> length [1 / 2, 1 / 4 :: real] = 2
   \<and> list_all (\<lambda>r. 0 \<le> r \<and> r < 1) [1 / 2, 1 / 4 :: real]
   \<and> sample_t_vals True 2 6 2 [1 / 2, 1 / 4] = [3, 13 / 2]
   \<and> sorted_wrt (<) (sample_t_vals True 2 6 2 [1 / 2, 1 / 4])
   \<and> list_all (\<lambda>d. 0 < d) (compute_dists (sample_t_vals True 2 6 2 [1 / 2, 1 / 4]))"
proof -
  have u: "[0..<2] = [0, Suc 0]"
    by (simp add: upt_rec)
  have v: "sample_t_vals True 2 6 2 [1 / 2, 1 / 4] = [3, 13 / 2]"
    by (simp add: sample_t_vals_def linspace_def Let_def u)
  have h: "list_all (\<lambda>r. 0 \<le> r \<and> r < 1) [1 / 2, 1 / 4 :: real]" by simp
  from jittered_samples_ascending [of 2 2 6 "[1 / 2, 1 / 4]", OF _ _ _ h] v h
  show ?thesis by simp
qed

subsection \<open>Construction-time validation\<close>

lemma post_init_rejects:
  assumes "max_samples cfg \<le> 0 \<or> far_plane cfg \<le> near_plane cfg"
  shows "\<exists>msg. post_init cfg = Inl (ValueError msg)"
  using assms by (auto simp: post_init_def)

text \<open>
  With a level count below 1 the constructor's loop runs for no level, nothing is checked,
  and the encoder is built with an empty list of resolutions; \<open>forward\<close> then has no level
  output to concatenate and raises.
\<close>

lemma HashEncoding_init_no_levels:
  assumes "n_levels < 1"
  shows "\<exists>enc. HashEncoding_init n_levels base_res max_res log2_size feat_dim growth scaled randn
                 = Inr enc
             \<and> num_levels enc = n_levels \<and> resolutions enc = []
             \<and> forward enc p = Inl RuntimeError"
proof -
  have n: "nat n_levels = 0" using assms by simp
  obtain p0 p1 p2 where p: "p = (p0, p1, p2)" by (cases p) auto
  show ?thesis
    unfolding p by (simp add: HashEncoding_init_def Let_def n forward_def encoded_features_def)
qed

text \<open>
  The sampling lines of \<open>forward\<close> take \<open>near\<close>, \<open>far\<close> and \<open>num_samples\<close> per call and check
  none of them: with \<open>far < near\<close> the distances descend.
\<close>

lemma sample_t_vals_descending:
  assumes S: "2 \<le> S" and fn: "far < near"
  shows "length (sample_t_vals False near far S rand) = S
       \<and> sorted_wrt (>) (sample_t_vals False near far S rand)"
proof -
  let ?t = "sample_t_vals False near far S rand"
  define step where "step = (far - near) / real (S - 1)"
  have step: "step < 0" using fn S by (simp add: step_def divide_neg_pos)
  have len: "length ?t = S" using S by (simp add: sample_t_vals_def linspace_def)
  have nth: "?t ! i = near + real i * step" if "i < S" for i
    using that S by (simp add: sample_t_vals_def linspace_def step_def)
  have "?t ! j < ?t ! i" if "i < j" "j < S" for i j
  proof -
    have "real i < real j" using that by simp
    then have "real j * step < real i * step"
      using step by (rule mult_strict_right_mono_neg)
    then show ?thesis using nth [of i] nth [of j] that by simp
  qed
  then have "sorted_wrt (>) ?t"
    unfolding sorted_wrt_iff_nth_less using len by simp
  with len show ?thesis by simp
qed

text \<open>
  Claim C7, as the code has it. Constructing a \<open>ModelConfig\<close> with a non-positive sample
  count (\<open>max_samples\<close>) or with \<open>near_plane \<ge> far_plane\<close> fails in \<open>__post_init__\<close> with a
  \<open>ValueError\<close>. The level count is not validated: \<open>HashEncoding\<close> with a level count below 1
  is constructed, and the error is raised by \<open>forward\<close>. The \<open>num_samples\<close>, \<open>near\<close> and \<open>far\<close>
  that a renderer receives per call are not validated either: with no samples the
  distances are empty, and with \<open>far < near\<close> they are strictly descending.
\<close>

theorem construction_validation:
  "((max_samples cfg \<le> 0 \<or> far_plane cfg \<le> near_plane cfg)
      \<longrightarrow> (\<exists>msg. post_init cfg = Inl (ValueError msg)))
   \<and> (n_levels < 1 \<longrightarrow>
        (\<exists>enc. HashEncoding_init n_levels base_res max_res log2_size feat_dim growth scaled randn
                  = Inr enc
              \<and> num_levels enc = n_levels \<and> resolutions enc = []
              \<and> forward enc p = Inl RuntimeError))
   \<and> sample_t_vals False near far 0 rand = []
   \<and> (2 \<le> S \<and> far < near \<longrightarrow>
        length (sample_t_vals False near far S rand) = S
        \<and> sorted_wrt (>) (sample_t_vals False near far S rand))"
proof -
  have "sample_t_vals False near far 0 rand = []"
    by (simp add: sample_t_vals_def linspace_def)
  then show ?thesis
    using post_init_rejects HashEncoding_init_no_levels sample_t_vals_descending by blast
qed

theorem construction_validation_witness:
  "max_samples (default_ModelConfig \<lparr> max_samples := 0 \<rparr>) \<le> 0
   \<and> post_init (default_ModelConfig \<lparr> max_samples := 0 \<rparr>)
       = Inl (ValueError ''max_samples must be positive'')
   \<and> far_plane (default_ModelConfig \<lparr> near_plane := 6, far_plane := 6 \<rparr>)
       \<le> near_plane (default_ModelConfig \<lparr> near_plane := 6, far_plane := 6 \<rparr>)
   \<and> (\<exists>msg. post_init (default_ModelConfig \<lparr> near_plane := 6, far_plane := 6 \<rparr>)
          = Inl (ValueError msg))
   \<and> (0::int) < 1
   \<and> (\<exists>enc. HashEncoding_init 0 16 2048 2 2 (1 / 128) (\<lambda>level. 16 * (1 / 128) ^ level) (\<lambda>i j. 0)
                = Inr enc
            \<and> num_levels enc = 0 \<and> resolutions enc = []
            \<and> forward enc (0, 0, 0) = Inl RuntimeError)
   \<and> (2::nat) \<le> 3 \<and> (2::real) < 6
   \<and> sample_t_vals False 6 2 3 [] = [6, 4, 2]
   \<and> sorted_wrt (>) (sample_t_vals False 6 2 3 [])"
proof -
  have a: "max_samples (default_ModelConfig \<lparr> max_samples := 0 \<rparr>) \<le> 0" by simp
  have b: "far_plane (default_ModelConfig \<lparr> near_plane := 6, far_plane := 6 \<rparr>)
       \<le> near_plane (default_ModelConfig \<lparr> near_plane := 6, far_plane := 6 \<rparr>)" by simp
  have c: "post_init (default_ModelConfig \<lparr> max_samples := 0 \<rparr>)
       = Inl (ValueError ''max_samples must be positive'')"
    by (simp add: post_init_def default_ModelConfig_def)
  have u: "[0..<3] = [0, Suc 0, Suc (Suc 0)]" by (simp add: upt_rec)
  have v: "sample_t_vals False 6 2 3 [] = [6, 4, 2]"
    by (simp add: sample_t_vals_def linspace_def u)
  have n: "(0::int) < 1" "(2::nat) \<le> 3" "(2::real) < 6" by simp_all
  from construction_validation [of "default_ModelConfig \<lparr> near_plane := 6, far_plane := 6 \<rparr>"
      0 16 2048 2 2 "1 / 128" "\<lambda>level. 16 * (1 / 128) ^ level" "\<lambda>i j. 0" "(0, 0, 0)" 6 2 "[]" 3]
    a b c v n
  show ?thesis by blast
qed

text \<open>
  An encoder with no level is constructed and raises only in \<open>forward\<close>; a renderer called
  with \<open>near = 6\<close>, \<open>far = 2\<close> samples the descending distances \<open>[6, 4, 2]\<close>; and a ray rendered
  with no sample at all returns the white background with alpha 0.
\<close>

theorem unvalidated_construction_counterexample:
  "(\<exists>enc. HashEncoding_init 0 16 2048 2 2 (1 / 128) (\<lambda>level. 16 * (1 / 128) ^ level) (\<lambda>i j. 0)
             = Inr enc
         \<and> num_levels enc = 0 \<and> resolutions enc = []
         \<and> forward enc (0, 0, 0) = Inl RuntimeError)
   \<and> sample_t_vals False 6 2 3 [] = [6, 4, 2]
   \<and> volume_render \<lparr> background_color = (1, 1, 1), use_white_background = True \<rparr>
        [] [] (sample_t_vals False 2 6 0 []) = [1, 1, 1, 0]"
proof -
  have u: "[0..<3] = [0, Suc 0, Suc (Suc 0)]" by (simp add: upt_rec)
  have v: "sample_t_vals False 6 2 3 [] = [6, 4, 2]"
    by (simp add: sample_t_vals_def linspace_def u)
  have e: "sample_t_vals False 2 6 0 [] = []"
    by (simp add: sample_t_vals_def linspace_def)
  have r: "volume_render \<lparr> background_color = (1, 1, 1), use_white_background = True \<rparr>
        [] [] [] = [1, 1, 1, 0]"
    by (simp add: volume_render_def compute_alpha_def compute_dists_def compute_transmittance_def
        cumprod_def accumulate_colors_def)
  have h: "\<exists>enc. HashEncoding_init 0 16 2048 2 2 (1 / 128) (\<lambda>level. 16 * (1 / 128) ^ level) (\<lambda>i j. 0)
             = Inr enc
         \<and> num_levels enc = 0 \<and> resolutions enc = []
         \<and> forward enc (0, 0, 0) = Inl RuntimeError"
    by (rule HashEncoding_init_no_levels) simp
  show ?thesis using h v e r by simp
qed

subsection \<open>Transmittance under rounding\<close>

lemma cumprod_acc_exact: "cumprod_acc (\<lambda>x. x) c xs = cumprod_from c xs"
  by (induction xs arbitrary: c) auto

text \<open>With the identity for \<open>rnd\<close> and \<open>acc\<close> the rounded tensors are the exact ones.\<close>

lemma compute_alpha_rnd_exact: "compute_alpha_rnd (\<lambda>x. x) densities t_vals = compute_alpha densities t_vals"
  by (simp add: compute_alpha_rnd_def compute_alpha_def compute_dists_rnd_def compute_dists_def)

lemma compute_transmittance_rnd_exact:
  "compute_transmittance_rnd (\<lambda>x. x) (\<lambda>x. x) alpha = compute_transmittance alpha"
  by (simp add: compute_transmittance_rnd_def compute_transmittance_def cumprod_rnd_def
      cumprod_def cumprod_acc_exact)

lemma rounding_mono: "rounding rnd \<Longrightarrow> x \<le> y \<Longrightarrow> rnd x \<le> rnd y"
  by (simp add: rounding_def)

lemma rounding_nonneg: "rounding rnd \<Longrightarrow> 0 \<le> x \<Longrightarrow> 0 \<le> rnd x"
  using rounding_mono [of rnd 0 x] by (simp add: rounding_def)

lemma rounding_le_one: "rounding rnd \<Longrightarrow> x \<le> 1 \<Longrightarrow> rnd x \<le> 1"
  using rounding_mono [of rnd x 1] by (simp add: rounding_def)

lemma rounding_nonpos: "rounding rnd \<Longrightarrow> x \<le> 0 \<Longrightarrow> rnd x \<le> 0"
  using rounding_mono [of rnd x 0] by (simp add: rounding_def)

lemma compute_dists_rnd_nonneg:
  assumes r: "rounding rnd" and "sorted t_vals"
  shows "\<forall>d \<in> set (compute_dists_rnd rnd t_vals). 0 \<le> d"
proof -
  have "0 \<le> rnd (a - b)" if "(a, b) \<in> set (zip (drop 1 t_vals) (butlast t_vals))" for a b
  proof -
    from that obtain i where i: "i < length (drop 1 t_vals)" "i < length (butlast t_vals)"
      "a = drop 1 t_vals ! i" "b = butlast t_vals ! i"
      by (auto simp: set_zip)
    then have "a = t_vals ! Suc i" "b = t_vals ! i" "Suc i < length t_vals"
      by (simp_all add: nth_butlast)
    with assms(2) have "0 \<le> a - b"
      using sorted_nth_mono [of t_vals i "Suc i"] by simp
    then show ?thesis using r by (rule rounding_nonneg [rotated])
  qed
  moreover have "0 \<le> rnd (10 ^ 10)"
    using r by (rule rounding_nonneg) simp
  ultimately show ?thesis
    by (auto simp: compute_dists_rnd_def Let_def dest: in_set_takeD)
qed

lemma alpha_rnd_range:
  assumes r: "rounding rnd" and d: "0 \<le> density" "0 \<le> dl"
  shows "0 \<le> rnd (1 - rnd (exp (rnd (- density * dl))))
       \<and> rnd (1 - rnd (exp (rnd (- density * dl)))) \<le> 1"
proof -
  have "- density * dl \<le> 0" using d by (simp add: mult_nonneg_nonneg)
  then have "rnd (- density * dl) \<le> 0" using r by (rule rounding_nonpos [rotated])
  then have "exp (rnd (- density * dl)) \<le> 1" by simp
  then have e1: "rnd (exp (rnd (- density * dl))) \<le> 1"
    using r by (rule rounding_le_one [rotated])
  have e0: "0 \<le> rnd (exp (rnd (- density * dl)))"
    using r by (rule rounding_nonneg) simp
  from e1 have "0 \<le> 1 - rnd (exp (rnd (- density * dl)))" by simp
  then have a0: "0 \<le> rnd (1 - rnd (exp (rnd (- density * dl))))"
    using r by (rule rounding_nonneg [rotated])
  from e0 have "1 - rnd (exp (rnd (- density * dl))) \<le> 1" by simp
  then have "rnd (1 - rnd (exp (rnd (- density * dl)))) \<le> 1"
    using r by (rule rounding_le_one [rotated])
  with a0 show ?thesis by simp
qed

lemma compute_alpha_rnd_range:
  assumes r: "rounding rnd" and "list_all (\<lambda>d. 0 \<le> d) densities" "sorted t_vals"
  shows "\<forall>a \<in> set (compute_alpha_rnd rnd densities t_vals). 0 \<le> a \<and> a \<le> 1"
proof -
  have "0 \<le> d \<and> 0 \<le> dl" if "(d, dl) \<in> set (zip densities (compute_dists_rnd rnd t_vals))" for d dl
    using that assms(2) compute_dists_rnd_nonneg [OF r assms(3)]
    by (auto simp: list_all_iff dest: set_zip_leftD set_zip_rightD)
  then show ?thesis
    using alpha_rnd_range [OF r] by (auto simp: compute_alpha_rnd_def)
qed

lemma factor_rnd_range:
  assumes r: "rounding rnd" and e: "absorbs_epsilon rnd" and a: "0 \<le> a" "a \<le> 1"
  shows "0 \<le> rnd (rnd (1 - a) + rnd (1 / 10 ^ 10))
       \<and> rnd (rnd (1 - a) + rnd (1 / 10 ^ 10)) \<le> 1"
proof -
  have x0: "0 \<le> rnd (1 - a)" using r by (rule rounding_nonneg) (use a in simp)
  have x1: "rnd (1 - a) \<le> 1" using r by (rule rounding_le_one) (use a in simp)
  have e0: "0 \<le> rnd (1 / 10 ^ 10)" using r by (rule rounding_nonneg) simp
  have "rnd (1 - a) + rnd (1 / 10 ^ 10) \<le> 1 + rnd (1 / 10 ^ 10)" using x1 by simp
  then have "rnd (rnd (1 - a) + rnd (1 / 10 ^ 10)) \<le> rnd (1 + rnd (1 / 10 ^ 10))"
    using r by (rule rounding_mono [rotated])
  also have "\<dots> \<le> 1" using e by (simp add: absorbs_epsilon_def)
  finally have up: "rnd (rnd (1 - a) + rnd (1 / 10 ^ 10)) \<le> 1" .
  have "0 \<le> rnd (rnd (1 - a) + rnd (1 / 10 ^ 10))"
    using r by (rule rounding_nonneg) (use x0 e0 in simp)
  with up show ?thesis by simp
qed

text \<open>
  The accumulator of \<open>cumprod\<close> over factors in \<open>[0, 1]\<close>: each value is at most the one
  before it.
\<close>

lemma cumprod_acc_step:
  assumes r: "rounding acc" and c: "0 \<le> c" "acc c = c"
    and fs: "\<forall>f \<in> set fs. 0 \<le> f \<and> f \<le> 1" and i: "i < length fs"
  shows "(c # cumprod_acc acc c fs) ! Suc i \<le> (c # cumprod_acc acc c fs) ! i"
  using c fs i
proof (induction fs arbitrary: c i)
  case Nil
  then show ?case by simp
next
  case (Cons f fs)
  have f: "0 \<le> f" "f \<le> 1" using Cons.prems(3) by simp_all
  have "c * f \<le> c * 1" using f Cons.prems(1) by (intro mult_left_mono) simp_all
  then have "c * f \<le> c" by simp
  then have "acc (c * f) \<le> acc c" by (rule rounding_mono [OF r])
  then have le: "acc (c * f) \<le> c" using Cons.prems(2) by simp
  have nn: "0 \<le> acc (c * f)"
    using r by (rule rounding_nonneg) (use f Cons.prems(1) in simp)
  have idem: "acc (acc (c * f)) = acc (c * f)" using r by (simp add: rounding_def)
  show ?case
  proof (cases i)
    case 0
    then show ?thesis using le by simp
  next
    case (Suc j)
    with Cons.prems(4) have j: "j < length fs" by simp
    have "\<forall>f \<in> set fs. 0 \<le> f \<and> f \<le> 1" using Cons.prems(3) by simp
    from Cons.IH [OF nn idem this j] Suc show ?thesis by simp
  qed
qed

lemma length_cumprod_acc: "length (cumprod_acc acc c xs) = length xs"
  by (induction xs arbitrary: c) auto

lemma compute_transmittance_rnd_eq:
  assumes "rounding acc"
  shows "compute_transmittance_rnd rnd acc alpha
     = take (length alpha)
         (map rnd (1 # cumprod_acc acc 1 (map (\<lambda>a. rnd (rnd (1 - a) + rnd (1 / 10 ^ 10))) alpha)))"
proof (cases alpha)
  case Nil
  then show ?thesis by (simp add: compute_transmittance_rnd_def cumprod_rnd_def)
next
  case (Cons a as)
  have one: "acc 1 = 1" using assms by (simp add: rounding_def)
  show ?thesis
    using Cons by (simp add: compute_transmittance_rnd_def cumprod_rnd_def one
        butlast_conv_take length_cumprod_acc)
qed

text \<open>
  Claim C3. For every ray with non-negative densities and ascending distances, in every
  dtype whose rounding absorbs the epsilon (float32, the dtype of the tensors of the
  pipeline), the transmittance sequence that the integrator computes starts at 1 and is
  non-increasing along the sample index.
\<close>

theorem transmittance_non_increasing:
  assumes rnd: "rounding rnd" and acc: "rounding acc" and eps: "absorbs_epsilon rnd"
    and dens: "list_all (\<lambda>d. 0 \<le> d) densities" and asc: "sorted t_vals"
  shows "(let alpha = compute_alpha_rnd rnd densities t_vals;
              transmittance = compute_transmittance_rnd rnd acc alpha
          in length transmittance = length alpha
             \<and> (alpha \<noteq> [] \<longrightarrow> transmittance ! 0 = 1)
             \<and> (\<forall>i. Suc i < length transmittance \<longrightarrow> transmittance ! Suc i \<le> transmittance ! i)
             \<and> sorted_wrt (\<ge>) transmittance)"
proof -
  define alpha where "alpha = compute_alpha_rnd rnd densities t_vals"
  define fs where "fs = map (\<lambda>a. rnd (rnd (1 - a) + rnd (1 / 10 ^ 10))) alpha"
  define cp where "cp = 1 # cumprod_acc acc 1 fs"
  define T where "T = compute_transmittance_rnd rnd acc alpha"
  have T: "T = take (length alpha) (map rnd cp)"
    unfolding T_def cp_def fs_def using acc by (rule compute_transmittance_rnd_eq)
  have len: "length T = length alpha"
    by (simp add: T cp_def fs_def length_cumprod_acc)
  have rng: "\<forall>a \<in> set alpha. 0 \<le> a \<and> a \<le> 1"
    unfolding alpha_def using rnd dens asc by (rule compute_alpha_rnd_range)
  have frng: "\<forall>f \<in> set fs. 0 \<le> f \<and> f \<le> 1"
    using rng factor_rnd_range [OF rnd eps] by (auto simp: fs_def)
  have one: "acc 1 = 1" "rnd 1 = 1" using rnd acc by (simp_all add: rounding_def)
  have nth: "T ! i = rnd (cp ! i)" if "i < length T" for i
  proof -
    have "i < length cp" "i < length alpha" using that by (simp_all add: T)
    then show ?thesis by (simp add: T)
  qed
  have first: "alpha \<noteq> [] \<longrightarrow> T ! 0 = 1"
    using one by (cases alpha) (simp_all add: T cp_def)
  have step: "T ! Suc i \<le> T ! i" if i: "Suc i < length T" for i
  proof -
    have il: "i < length fs" using i len by (simp add: fs_def)
    have z: "(0::real) \<le> 1" by simp
    have "cp ! Suc i \<le> cp ! i"
      unfolding cp_def by (rule cumprod_acc_step [OF acc z one(1) frng il])
    then have "rnd (cp ! Suc i) \<le> rnd (cp ! i)" by (rule rounding_mono [OF rnd])
    moreover have "i < length T" using i by simp
    ultimately show ?thesis using nth [OF i] nth [of i] by simp
  qed
  have tr: "transp (\<lambda>x y :: real. y \<le> x)" by (rule transpI) simp
  have sorted: "sorted_wrt (\<ge>) T"
    unfolding sorted_wrt_iff_nth_Suc_transp [OF tr] using step by blast
  have steps: "\<forall>i. Suc i < length T \<longrightarrow> T ! Suc i \<le> T ! i"
    using step by blast
  show ?thesis
    unfolding Let_def alpha_def [symmetric] T_def [symmetric]
    by (intro conjI len first steps sorted)
qed

text \<open>Rounding down to a multiple of \<open>2 ^ -24\<close> is a rounding that absorbs the epsilon.\<close>

lemma grid24_of_int: "grid24 (real_of_int n / 2 ^ 24) = real_of_int n / 2 ^ 24"
  by (simp add: grid24_def)

lemma grid24_values: "grid24 0 = 0" "grid24 1 = 1" "grid24 (- 1) = - 1" "grid24 (1 / 2) = 1 / 2"
  "grid24 (1 / 10 ^ 10) = 0" "grid24 (10 ^ 10) = 10 ^ 10"
  by (simp_all add: grid24_def)

lemma rounding_grid24: "rounding grid24"
proof -
  have mono: "grid24 x \<le> grid24 y" if "x \<le> y" for x y
  proof -
    from that have "x * 2 ^ 24 \<le> y * 2 ^ 24" by simp
    then have "\<lfloor>x * 2 ^ 24\<rfloor> \<le> \<lfloor>y * 2 ^ 24\<rfloor>" by (rule floor_mono)
    then show ?thesis by (simp add: grid24_def divide_right_mono)
  qed
  have idem: "grid24 (grid24 x) = grid24 x" for x
    unfolding grid24_def [of x] by (rule grid24_of_int)
  show ?thesis
    unfolding rounding_def using mono idem grid24_values(1,2) by blast
qed

lemma absorbs_epsilon_grid24: "absorbs_epsilon grid24"
  using grid24_values by (simp add: absorbs_epsilon_def)

theorem transmittance_non_increasing_witness:
  "rounding grid24 \<and> absorbs_epsilon grid24
   \<and> list_all (\<lambda>d. 0 \<le> d) [1, 1 :: real] \<and> sorted [0, 1 :: real]
   \<and> length (compute_transmittance_rnd grid24 grid24 (compute_alpha_rnd grid24 [1, 1] [0, 1])) = 2
   \<and> compute_transmittance_rnd grid24 grid24 (compute_alpha_rnd grid24 [1, 1] [0, 1]) ! 0 = 1
   \<and> compute_transmittance_rnd grid24 grid24 (compute_alpha_rnd grid24 [1, 1] [0, 1]) ! Suc 0
       \<le> compute_transmittance_rnd grid24 grid24 (compute_alpha_rnd grid24 [1, 1] [0, 1]) ! 0
   \<and> compute_transmittance_rnd grid24 grid24 (compute_alpha_rnd grid24 [1, 1] [0, 1]) ! Suc 0
       \<le> 1 / 2"
proof -
  note r = rounding_grid24
  define E where "E = grid24 (exp (- 1))"
  define a0 where "a0 = grid24 (1 - E)"
  define f0 where "f0 = grid24 (grid24 (1 - a0) + grid24 (1 / 10 ^ 10))"
  have "\<exists>a1. compute_alpha_rnd grid24 [1, 1] [0, 1] = [a0, a1]"
    using grid24_values
    by (simp add: compute_alpha_rnd_def compute_dists_rnd_def a0_def E_def)
  then obtain a1 where alpha: "compute_alpha_rnd grid24 [1, 1] [0, 1] = [a0, a1]" ..
  have T: "compute_transmittance_rnd grid24 grid24 [a0, a1] = [1, grid24 (grid24 f0)]"
    using grid24_values
    by (simp add: compute_transmittance_rnd_def cumprod_rnd_def f0_def)
  have "exp (- 1 :: real) \<le> 1 / 2" using exp_minus_half [of 1] by simp
  then have "E \<le> grid24 (1 / 2)" unfolding E_def by (rule rounding_mono [OF r])
  then have "1 / 2 \<le> 1 - E" using grid24_values by simp
  then have "grid24 (1 / 2) \<le> a0" unfolding a0_def by (rule rounding_mono [OF r])
  then have "1 - a0 \<le> 1 / 2" using grid24_values by simp
  then have "grid24 (1 - a0) \<le> grid24 (1 / 2)" by (rule rounding_mono [OF r])
  then have "grid24 (1 - a0) + grid24 (1 / 10 ^ 10) \<le> 1 / 2" using grid24_values by simp
  then have "f0 \<le> grid24 (1 / 2)" unfolding f0_def by (rule rounding_mono [OF r])
  then have "f0 \<le> 1 / 2" using grid24_values by simp
  then have "grid24 f0 \<le> grid24 (1 / 2)" by (rule rounding_mono [OF r])
  then have "grid24 f0 \<le> 1 / 2" using grid24_values by simp
  then have "grid24 (grid24 f0) \<le> grid24 (1 / 2)" by (rule rounding_mono [OF r])
  then have half: "grid24 (grid24 f0) \<le> 1 / 2" using grid24_values by simp
  have h: "list_all (\<lambda>d. 0 \<le> d) [1, 1 :: real]" "sorted [0, 1 :: real]" by simp_all
  from transmittance_non_increasing [OF r r absorbs_epsilon_grid24 h]
  have "compute_transmittance_rnd grid24 grid24 (compute_alpha_rnd grid24 [1, 1] [0, 1]) ! Suc 0
       \<le> compute_transmittance_rnd grid24 grid24 (compute_alpha_rnd grid24 [1, 1] [0, 1]) ! 0"
    unfolding Let_def alpha T by simp
  then show ?thesis
    using r absorbs_epsilon_grid24 h half by (simp add: alpha T)
qed

text \<open>
  The real numbers (and float64, in which \<open>1 + 1e-10\<close> is a value of its own) do not absorb
  the epsilon, and there the hypothesis cannot be dropped: computed exactly, two samples of
  density zero raise the transmittance from 1 to \<open>1 + 1e-10\<close>.
\<close>

lemma exact_arithmetic_keeps_epsilon: "\<not> absorbs_epsilon (\<lambda>x. x)"
  by (simp add: absorbs_epsilon_def)

lemma transmittance_exact_arithmetic_rises:
  "compute_transmittance (compute_alpha [0, 0] [0, 1]) ! 0
     < compute_transmittance (compute_alpha [0, 0] [0, 1]) ! 1"
proof -
  have "compute_transmittance (compute_alpha [0, 0] [0, 1]) = [1, 1 + 1 / 10 ^ 10]"
    by (simp add: compute_transmittance_def compute_alpha_def compute_dists_def cumprod_def)
  then show ?thesis by simp
qed

end
